theory Spec2Isabelle
  imports Main "HOL-Library.Sublist" "HOL-Library.AList"
begin

section \<open>Text primitives of the Python runtime, on ASCII text\<close>

text \<open>
  Cell text is modelled as \<open>string\<close> holding ASCII text. On ASCII text the Unicode
  normalisations NFKC and NFKD of \<open>unicodedata.normalize\<close> are the identity, so
  \<open>normalize_text\<close> is \<open>str.strip\<close> and \<open>ascii_text\<close> only drops what is not ASCII.
  The character classes below are those of Python's \<open>str\<close> methods on ASCII.
\<close>

definition py_isspace :: "char \<Rightarrow> bool" where
  "py_isspace c = (let n = (of_char c :: nat) in (9 \<le> n \<and> n \<le> 13) \<or> (28 \<le> n \<and> n \<le> 32))"

definition upper_letters :: string where
  "upper_letters = ''ABCDEFGHIJKLMNOPQRSTUVWXYZ''"

definition lower_letters :: string where
  "lower_letters = ''abcdefghijklmnopqrstuvwxyz''"

definition digit_chars :: string where
  "digit_chars = ''0123456789''"

definition is_upper_char :: "char \<Rightarrow> bool" where
  "is_upper_char c = List.member upper_letters c"

definition is_lower_char :: "char \<Rightarrow> bool" where
  "is_lower_char c = List.member lower_letters c"

definition py_isdigit :: "char \<Rightarrow> bool" where
  "py_isdigit c = List.member digit_chars c"

text \<open>The class \<open>[0-9A-Za-z]\<close> of the regular expressions.\<close>

definition is_alnum :: "char \<Rightarrow> bool" where
  "is_alnum c = (py_isdigit c \<or> is_upper_char c \<or> is_lower_char c)"

text \<open>The class \<open>[a-z0-9]\<close> of the vocabulary lookups.\<close>

definition is_lower_alnum :: "char \<Rightarrow> bool" where
  "is_lower_alnum c = (is_lower_char c \<or> py_isdigit c)"

definition lower_char :: "char \<Rightarrow> char" where
  "lower_char c = (case map_of (zip upper_letters lower_letters) c of Some d \<Rightarrow> d | None \<Rightarrow> c)"

definition upper_char :: "char \<Rightarrow> char" where
  "upper_char c = (case map_of (zip lower_letters upper_letters) c of Some d \<Rightarrow> d | None \<Rightarrow> c)"

definition py_lower :: "string \<Rightarrow> string" where
  "py_lower s = map lower_char s"

definition py_upper :: "string \<Rightarrow> string" where
  "py_upper s = map upper_char s"

text \<open>\<open>str.isupper\<close>: at least one cased character, and no lower-case one.\<close>

definition py_isupper :: "string \<Rightarrow> bool" where
  "py_isupper s = (list_ex is_upper_char s \<and> list_all (\<lambda>c. \<not> is_lower_char c) s)"

definition lstrip :: "string \<Rightarrow> string" where
  "lstrip s = dropWhile py_isspace s"

definition rstrip :: "string \<Rightarrow> string" where
  "rstrip s = rev (dropWhile py_isspace (rev s))"

definition strip :: "string \<Rightarrow> string" where
  "strip s = rstrip (lstrip s)"

text \<open>\<open>s.rstrip(chars)\<close>: the trailing characters that occur in \<open>chars\<close> are removed.\<close>

definition rstrip_chars :: "string \<Rightarrow> string \<Rightarrow> string" where
  "rstrip_chars chars s = rev (dropWhile (List.member chars) (rev s))"

text \<open>\<open>s.replace(old, new)\<close> for a one-character \<open>old\<close>.\<close>

definition replace_char :: "char \<Rightarrow> string \<Rightarrow> string \<Rightarrow> string" where
  "replace_char old new s = concat (map (\<lambda>c. if c = old then new else [c]) s)"

definition endswith :: "string \<Rightarrow> string \<Rightarrow> bool" where
  "endswith s suf = suffix suf s"

text \<open>\<open>sep.join(xs)\<close>.\<close>

fun join :: "string \<Rightarrow> string list \<Rightarrow> string" where
  "join sep [] = []"
| "join sep [x] = x"
| "join sep (x # y # ys) = x @ sep @ join sep (y # ys)"

text \<open>\<open>str(n)\<close> of an integer: its decimal numeral.\<close>

fun str_nat :: "nat \<Rightarrow> string" where
  "str_nat n = (if n < 10 then [digit_chars ! n]
                else str_nat (n div 10) @ [digit_chars ! (n mod 10)])"

declare str_nat.simps [simp del]

definition str_int :: "int \<Rightarrow> string" where
  "str_int i = (if i < 0 then ''-'' @ str_nat (nat (- i)) else str_nat (nat i))"

text \<open>
  \<open>[p for p in re.split(r"[^0-9A-Za-z]+", s) if p]\<close>: the maximal runs of
  alphanumeric characters of \<open>s\<close>, in order. The first argument is the run being read.
\<close>

fun alnum_parts :: "string \<Rightarrow> string \<Rightarrow> string list" where
  "alnum_parts cur [] = (if cur = [] then [] else [cur])"
| "alnum_parts cur (c # cs) =
     (if is_alnum c then alnum_parts (cur @ [c]) cs
      else (if cur = [] then [] else [cur]) @ alnum_parts [] cs)"

text \<open>
  \<open>re.sub(r"\\s+", " ", s)\<close>: every run of whitespace becomes one space. The flag says
  that the character before was whitespace, whose run has already given its space.
\<close>

fun collapse_run :: "bool \<Rightarrow> string \<Rightarrow> string" where
  "collapse_run in_run [] = []"
| "collapse_run in_run (c # cs) =
     (if py_isspace c
      then (if in_run then collapse_run True cs else CHR '' '' # collapse_run True cs)
      else c # collapse_run False cs)"

definition collapse_ws :: "string \<Rightarrow> string" where
  "collapse_ws s = collapse_run False s"

section \<open>Normalisation (both scripts)\<close>

definition normalize_text :: "string \<Rightarrow> string" where
  "normalize_text v = strip v"

definition ascii_text :: "string \<Rightarrow> string" where
  "ascii_text v = filter (\<lambda>c. (of_char c :: nat) < 128) v"

definition normalize_label_text :: "string \<Rightarrow> string" where
  "normalize_label_text v = collapse_ws (normalize_text v)"

section \<open>Controlled vocabularies\<close>

text \<open>
  A vocabulary table lists, in source order, the term, its label and its comment. The
  lookup tables are built from the labels as the dictionary comprehensions do; a later
  entry with the same key would replace an earlier one.
\<close>

type_synonym vocabulary = "(string \<times> string \<times> string) list"

definition ACCESS_LEVEL_DEFS :: vocabulary where
  "ACCESS_LEVEL_DEFS =
     [(''AnonymousOrOpen'', ''Anonymous / Open'',
         ''Data is usable without registration or affiliation.''),
      (''Registered'', ''Registered'',
         ''Data usage requires a Synapse account but not additional governance approvals.''),
      (''RestrictedOrLimited'', ''Restricted / Limited'',
         ''Data usage limited by contributor-defined contract terms.''),
      (''Controlled'', ''Controlled'',
         ''Data potentially re-identifiable and subject to access review.''),
      (''Enclave'', ''Enclave'',
         ''Sensitive data that must remain inside a secure compute enclave.'')]"

text \<open>In \<open>lift_datatype_rules.py\<close> the third term is named \<open>RestrictedLimited\<close>.\<close>

definition ACCESS_LEVEL_DEFS_dt :: vocabulary where
  "ACCESS_LEVEL_DEFS_dt =
     [(''AnonymousOrOpen'', ''Anonymous / Open'',
         ''Data is usable without registration or affiliation.''),
      (''Registered'', ''Registered'',
         ''Data usage requires a Synapse account but not additional governance approvals.''),
      (''RestrictedLimited'', ''Restricted / Limited'',
         ''Data usage limited by contributor-defined contract terms.''),
      (''Controlled'', ''Controlled'',
         ''Data potentially re-identifiable and subject to access review.''),
      (''Enclave'', ''Enclave'',
         ''Sensitive data that must remain inside a secure compute enclave.'')]"

definition IDENTIFIABILITY_RISK_DEFS :: vocabulary where
  "IDENTIFIABILITY_RISK_DEFS =
     [(''LowIdentifiabilityRisk'', ''Low'',
         ''Data has low likelihood of re-identification.''),
      (''SomeIdentifiabilityRisk'', ''Some risks'',
         ''Data could, in certain contexts, be used to re-identify individuals.''),
      (''HighIdentifiabilityRisk'', ''High'',
         ''Data is likely to re-identify individuals if misused.'')]"

definition SECURITY_STANDARD_DEFS :: vocabulary where
  "SECURITY_STANDARD_DEFS =
     [(''NoSecurityStandard'', ''No security standard required'',
         ''No specific technical environment requirements declared.''),
      (''NIST800171'', ''NIST 800-171'',
         ''Environment aligned with NIST Special Publication 800-171.''),
      (''ISO27001'', ''ISO 27001'',
         ''Environment aligned with the ISO/IEC 27001 information security standard.''),
      (''SecureCompliantEnclave'', ''Secure compliant enclave'',
         ''Data must remain inside a secured enclave that satisfies contributor requirements.'')]"

section \<open>Identifier allocation\<close>

text \<open>The reserved identifiers are the terms of the vocabularies of each script.\<close>

definition RESERVED_IDENTIFIERS :: "string list" where
  "RESERVED_IDENTIFIERS =
     map fst ACCESS_LEVEL_DEFS @ map fst IDENTIFIABILITY_RISK_DEFS @ map fst SECURITY_STANDARD_DEFS"

definition RESERVED_IDENTIFIERS_dt :: "string list" where
  "RESERVED_IDENTIFIERS_dt = map fst ACCESS_LEVEL_DEFS_dt @ map fst IDENTIFIABILITY_RISK_DEFS"

text \<open>One word part: an all-upper-case part is kept, any other is capitalised.\<close>

definition chunk :: "string \<Rightarrow> string" where
  "chunk p = (if py_isupper p then p
              else (case p of [] \<Rightarrow> [] | c # cs \<Rightarrow> upper_char c # py_lower cs))"

text \<open>
  The base of \<open>camel_case_identifier\<close>, before the usage counter is read, with the
  reserved identifiers as a parameter. \<open>parts\<close> holds no empty part and the default is
  \<open>Profile\<close>, so \<open>base[0]\<close> is always defined; the empty case below is never taken
  (lemma \<open>base_of_parts_nonempty\<close>).
\<close>

definition base_of_parts :: "string list \<Rightarrow> string list \<Rightarrow> string" where
  "base_of_parts reserved parts =
     (let base = (if parts = [] then ''Profile'' else concat (map chunk parts));
          base = (if List.member reserved base then base @ ''Profile'' else base)
      in (case base of
            [] \<Rightarrow> base
          | c # _ \<Rightarrow> if py_isdigit c then ''Profile'' @ base else base))"

text \<open>\<open>lift_gov_rules.py\<close>: a slash is first replaced by the word \<open>Or\<close>.\<close>

definition camel_base :: "string \<Rightarrow> string" where
  "camel_base v =
     (let safe_value = replace_char CHR ''/'' '' Or '' v
      in base_of_parts RESERVED_IDENTIFIERS (alnum_parts [] (strip safe_value)))"

definition camel_base_dt :: "string \<Rightarrow> string" where
  "camel_base_dt v = base_of_parts RESERVED_IDENTIFIERS_dt (alnum_parts [] (strip v))"

text \<open>
  The usage counter \<open>seen\<close> is a dictionary from bases to Python integers. The step on
  the counter is the same in both scripts; it returns the identifier and the updated
  counter.
\<close>

type_synonym seen = "string \<rightharpoonup> int"

definition allocate :: "string \<Rightarrow> seen \<Rightarrow> string \<times> seen" where
  "allocate base seen =
     (let count = (case seen base of None \<Rightarrow> 0 | Some n \<Rightarrow> n)
      in if count \<noteq> 0 then (base @ str_int (count + 1), seen(base \<mapsto> count + 1))
         else (base, seen(base \<mapsto> 1)))"

definition camel_case_identifier :: "string \<Rightarrow> seen \<Rightarrow> string \<times> seen" where
  "camel_case_identifier v seen = allocate (camel_base v) seen"

definition camel_case_identifier_dt :: "string \<Rightarrow> seen \<Rightarrow> string \<times> seen" where
  "camel_case_identifier_dt v seen = allocate (camel_base_dt v) seen"

text \<open>Successive calls on a list of labels, sharing one usage counter.\<close>

fun successive_ids :: "(string \<Rightarrow> seen \<Rightarrow> string \<times> seen) \<Rightarrow> string list \<Rightarrow> seen \<Rightarrow> string list" where
  "successive_ids alloc [] seen = []"
| "successive_ids alloc (v # vs) seen =
     (case alloc v seen of (new_id, seen') \<Rightarrow> new_id # successive_ids alloc vs seen')"

section \<open>Literals and boolean coercion (both scripts)\<close>

text \<open>
  \<open>json.dumps\<close> of a string, with its default \<open>ensure_ascii\<close>: the text between
  double quotes, the quote and the backslash escaped, the control characters by their
  short escape or \<open>\\u00XX\<close>.
\<close>

definition hex_digits :: string where
  "hex_digits = ''0123456789abcdef''"

definition json_escape_char :: "char \<Rightarrow> string" where
  "json_escape_char c =
     (let n = (of_char c :: nat) in
      if c = CHR 0x22 then [CHR 0x5C, CHR 0x22]
      else if c = CHR 0x5C then [CHR 0x5C, CHR 0x5C]
      else if c = CHR 0x0A then [CHR 0x5C, CHR ''n'']
      else if c = CHR 0x0D then [CHR 0x5C, CHR ''r'']
      else if c = CHR 0x09 then [CHR 0x5C, CHR ''t'']
      else if c = CHR 0x08 then [CHR 0x5C, CHR ''b'']
      else if c = CHR 0x0C then [CHR 0x5C, CHR ''f'']
      else if n < 32 \<or> 126 < n
        then [CHR 0x5C, CHR ''u'', CHR ''0'', CHR ''0'', hex_digits ! (n div 16), hex_digits ! (n mod 16)]
      else [c])"

definition json_dumps :: "string \<Rightarrow> string" where
  "json_dumps s = [CHR 0x22] @ concat (map json_escape_char s) @ [CHR 0x22]"

definition literal :: "string \<Rightarrow> string" where
  "literal v = json_dumps (ascii_text (normalize_text v))"

definition EXCEPTION_MARKER :: string where
  "EXCEPTION_MARKER = ''**''"

definition normalize_bool :: "string \<Rightarrow> bool option" where
  "normalize_bool v =
     (let collapsed = strip (rstrip_chars ''*'' (normalize_text v));
          lowered = py_lower collapsed
      in if List.member [''yes'', ''y'', ''true''] lowered then Some True
         else if List.member [''no'', ''n'', ''false''] lowered then Some False
         else None)"

definition BOOLEAN_FIELDS :: "string list" where
  "BOOLEAN_FIELDS =
     [''Downloadable data'', ''Redistribution'', ''Affiliation Requirement'',
      ''Synapse Account'', ''Human Subjects Training'', ''Data Access Request'',
      ''Data Use Certificate Signed by Signing Official'',
      ''General description of research objectives (posted)'',
      ''Proof of IRB approval'']"

definition format_value :: "string \<Rightarrow> string \<Rightarrow> string" where
  "format_value label v =
     (if List.member BOOLEAN_FIELDS label
      then (case normalize_bool v of
              Some as_bool \<Rightarrow> if as_bool then ''true'' else ''false''
            | None \<Rightarrow> literal v)
      else literal v)"

section \<open>Vocabulary resolution\<close>

text \<open>\<open>re.sub(r"[^a-z0-9]+", "", s.lower())\<close>.\<close>

definition lookup_key :: "string \<Rightarrow> string" where
  "lookup_key s = filter is_lower_alnum (py_lower s)"

definition lookup_table :: "vocabulary \<Rightarrow> (string \<times> string) list" where
  "lookup_table defs = map (\<lambda>(term, label, comment). (lookup_key label, term)) defs"

definition vocabulary_term :: "vocabulary \<Rightarrow> string \<Rightarrow> string option" where
  "vocabulary_term defs v =
     (let normalized = lookup_key (normalize_text v)
      in map_of (rev (lookup_table defs)) normalized)"

definition access_level_term :: "string \<Rightarrow> string option" where
  "access_level_term v = vocabulary_term ACCESS_LEVEL_DEFS v"

definition access_level_term_dt :: "string \<Rightarrow> string option" where
  "access_level_term_dt v = vocabulary_term ACCESS_LEVEL_DEFS_dt v"

definition identifiability_risk_term :: "string \<Rightarrow> string option" where
  "identifiability_risk_term v = vocabulary_term IDENTIFIABILITY_RISK_DEFS v"

definition SECURITY_STANDARD_KEYWORDS :: "(string \<times> string list list) list" where
  "SECURITY_STANDARD_KEYWORDS =
     [(''NoSecurityStandard'', [[''no'']]),
      (''NIST800171'', [[''nist'', ''800'', ''171'']]),
      (''ISO27001'', [[''iso'', ''27001'']]),
      (''SecureCompliantEnclave'', [[''secure'', ''enclave'']])]"

text \<open>
  A term matches when one of its patterns has every token inside the text
  (\<open>token in text\<close> is substring containment); each term is listed once, in table order.
\<close>

definition pattern_matches :: "string \<Rightarrow> string list list \<Rightarrow> bool" where
  "pattern_matches text patterns =
     list_ex (\<lambda>tokens. list_all (\<lambda>token. sublist token text) tokens) patterns"

definition security_standard_terms :: "string \<Rightarrow> string list" where
  "security_standard_terms v =
     (let text = replace_char CHR ''/'' '' '' (py_lower (normalize_text v))
      in map fst (filter (\<lambda>(term, patterns). pattern_matches text patterns)
                    SECURITY_STANDARD_KEYWORDS))"


section \<open>The grid and the profile collector (both scripts)\<close>

text \<open>
  The grid is the data frame read from the worksheet: a list of rows of optional text
  cells, \<open>None\<close> being a missing cell (\<open>pd.isna\<close>). A data frame is rectangular;
  a row shorter than the widest one is read as padded with missing cells.
\<close>

type_synonym cell = "string option"
type_synonym grid = "cell list list"

definition shape1 :: "grid \<Rightarrow> nat" where
  "shape1 df = foldr (\<lambda>row n. max (length row) n) df 0"

definition cell_at :: "cell list \<Rightarrow> nat \<Rightarrow> cell" where
  "cell_at row col = (if col < length row then row ! col else None)"

text \<open>\<open>df.iloc[:, col]\<close>.\<close>

definition column :: "grid \<Rightarrow> nat \<Rightarrow> cell list" where
  "column df col = map (\<lambda>row. cell_at row col) df"

text \<open>\<open>Series.ffill\<close>: a missing cell takes the last cell before it that is present.\<close>

fun ffill_from :: "cell \<Rightarrow> cell list \<Rightarrow> cell list" where
  "ffill_from last_seen [] = []"
| "ffill_from last_seen (x # xs) =
     (case x of
        None \<Rightarrow> last_seen # ffill_from last_seen xs
      | Some y \<Rightarrow> x # ffill_from x xs)"

definition ffill :: "cell list \<Rightarrow> cell list" where
  "ffill xs = ffill_from None xs"

definition HEADER_ROWS :: "string list" where
  "HEADER_ROWS = [''Access Prerequisites'', ''Request Submission and Approval Steps'']"

definition INTERNAL_COLUMN_KEY :: string where
  "INTERNAL_COLUMN_KEY = ''__column_index__''"

definition ROW5_DATA_KEY :: string where
  "ROW5_DATA_KEY = ''__row5_data''"

definition ROW4_DATA_KEY :: string where
  "ROW4_DATA_KEY = ''__row4_data''"

definition VALUE_STRINGS_TO_SKIP :: "string list" where
  \<open>VALUE_STRINGS_TO_SKIP =
     [''** with some exceptions at data contributors discretion'',
      ''** with some exceptions at data contributor's discretion'']\<close>

definition row_labels :: "grid \<Rightarrow> cell list" where
  "row_labels df = map (map_option normalize_text) (ffill (column df 0))"

definition data_type_rows :: "cell list \<Rightarrow> nat list" where
  "data_type_rows labels =
     map fst (filter (\<lambda>(idx, label). label = Some ''Data Type'') (enumerate 0 labels))"

definition row4_idx :: "cell list \<Rightarrow> nat option" where
  "row4_idx labels = (case data_type_rows labels of [] \<Rightarrow> None | i # _ \<Rightarrow> Some i)"

definition row5_idx :: "cell list \<Rightarrow> nat option" where
  "row5_idx labels = (case data_type_rows labels of _ # j # _ \<Rightarrow> Some j | _ \<Rightarrow> None)"

text \<open>
  The state of the loop over the rows of one column: the bucket, a dictionary in
  insertion order from row label to the values collected under it, and the two flags.
\<close>

record column_state =
  bucket :: "(string \<times> string list) list"
  has_row5_data :: bool
  has_row4_data :: bool

definition empty_column_state :: column_state where
  "empty_column_state = \<lparr>bucket = [], has_row5_data = False, has_row4_data = False\<rparr>"

text \<open>\<open>bucket.setdefault(label_key, []).append(value_text)\<close>.\<close>

definition setdefault_append :: "string \<Rightarrow> string \<Rightarrow> (string \<times> string list) list \<Rightarrow> (string \<times> string list) list" where
  "setdefault_append label_key value_text b =
     AList.update label_key
       ((case map_of b label_key of None \<Rightarrow> [] | Some vs \<Rightarrow> vs) @ [value_text]) b"

text \<open>
  The text a cell contributes to the bucket: none when the cell is missing, empty after
  normalisation, or one of the placeholder strings once quotes are removed and the text
  is lower-cased.
\<close>

definition cell_value :: "cell \<Rightarrow> string option" where
  "cell_value raw_value =
     (case raw_value of
        None \<Rightarrow> None
      | Some raw \<Rightarrow>
          (let value_text = normalize_text raw in
           if value_text = [] then None
           else (let normalized_skip =
                       py_lower (replace_char CHR 0x22 [] (replace_char CHR 0x27 [] value_text))
                 in if List.member VALUE_STRINGS_TO_SKIP normalized_skip then None
                    else Some value_text)))"

text \<open>The key a row label gives, none for a missing label and for a section header.\<close>

definition label_key_of :: "cell \<Rightarrow> string option" where
  "label_key_of label =
     (case label of
        None \<Rightarrow> None
      | Some l \<Rightarrow> if List.member HEADER_ROWS l then None else Some (strip l))"

text \<open>One iteration of the loop over the rows of a column.\<close>

definition collect_cell :: "nat option \<Rightarrow> nat option \<Rightarrow> column_state \<Rightarrow> nat \<times> cell \<times> cell \<Rightarrow> column_state" where
  "collect_cell r4 r5 st x =
     (case x of (row_idx, label, raw_value) \<Rightarrow>
        (case label_key_of label of
           None \<Rightarrow> st
         | Some label_key \<Rightarrow>
             (case cell_value raw_value of
                None \<Rightarrow> st
              | Some value_text \<Rightarrow>
                  \<lparr>bucket = setdefault_append label_key value_text (bucket st),
                   has_row5_data =
                     (has_row5_data st \<or> (label_key = ''Data Type'' \<and> r5 = Some row_idx)),
                   has_row4_data =
                     (has_row4_data st \<or> (label_key = ''Data Type'' \<and> r4 = Some row_idx))\<rparr>)))"

definition collect_column :: "grid \<Rightarrow> nat \<Rightarrow> column_state" where
  "collect_column df col =
     (let labels = row_labels df
      in foldl (collect_cell (row4_idx labels) (row5_idx labels)) empty_column_state
           (enumerate 0 (zip labels (column df col))))"

text \<open>
  A profile is the bucket with the internal keys added: the dictionary then holds lists
  of text, the column index and the flags. The internal keys are written after the rows
  are read, so a row label spelled like an internal key is overwritten by them.
\<close>

datatype pyval = VList "string list" | VInt int | VBool bool

type_synonym profile = "(string \<times> pyval) list"

definition profile_of :: "nat \<Rightarrow> column_state \<Rightarrow> profile" where
  "profile_of col st =
     (let b0 = map (\<lambda>(k, vs). (k, VList vs)) (bucket st);
          b1 = AList.update INTERNAL_COLUMN_KEY (VInt (int col)) b0;
          b2 = (if has_row5_data st then AList.update ROW5_DATA_KEY (VBool True) b1 else b1)
      in if has_row4_data st then AList.update ROW4_DATA_KEY (VBool True) b2 else b2)"

text \<open>\<open>any(bucket.values())\<close>: some label holds a non-empty list.\<close>

definition any_values :: "(string \<times> string list) list \<Rightarrow> bool" where
  "any_values b = list_ex (\<lambda>(k, vs). vs \<noteq> []) b"

definition column_profile :: "grid \<Rightarrow> nat \<Rightarrow> profile list" where
  "column_profile df col =
     (let st = collect_column df col
      in if any_values (bucket st) then [profile_of col st] else [])"

text \<open>
  \<open>df.iloc[:, 0]\<close> raises \<open>IndexError\<close> on a data frame without columns;
  \<open>parser.error\<close> leaves through \<open>SystemExit\<close> with its message.
\<close>

datatype error = IndexError | ParserError string

definition collect_profiles :: "grid \<Rightarrow> error + profile list" where
  "collect_profiles df =
     (if shape1 df = 0 then Inl IndexError
      else Inr (concat (map (column_profile df) [1..<shape1 df])))"


section \<open>The emitter of \<open>lift_gov_rules.py\<close>\<close>

definition PROPERTY_ORDER :: "(string \<times> string) list" where
  "PROPERTY_ORDER =
     [(''Identifiability risks'', ''sagegov:identifiabilityRisk''),
      (''Access Level'', ''sagegov:accessLevel''),
      (''Description'', ''dct:description''),
      (''Capabilities'', ''sagegov:capabilities''),
      (''Examples'', ''sagegov:example''),
      (''Downloadable data'', ''sagegov:downloadable''),
      (''Redistribution'', ''sagegov:redistributable''),
      (''Affiliation Requirement'', ''sagegov:accessPrerequisite''),
      (''Synapse Account'', ''sagegov:requireSynapseAccount''),
      (''Human Subjects Training'', ''sagegov:requireHumanSubjectsTraining''),
      (''Data Access Request'', ''sagegov:requireDataAccessRequest''),
      (''Data Use Certificate Signed by Signing Official'', ''sagegov:requireDataUseCertificate''),
      (''General description of research objectives (posted)'', ''sagegov:requireResearchObjective''),
      (''Proof of IRB approval'', ''sagegov:requireIrbApproval''),
      (''Technical environment security standards'', ''sagegov:requireSecurity''),
      (''Approval Process'', ''sagegov:approvalProcess'')]"

definition DATA_TYPE_COLUMNS :: "int list" where
  "DATA_TYPE_COLUMNS = []"

definition ALSO_DATA_LABELS :: "string list" where
  "ALSO_DATA_LABELS = [''hipaa safe harbor'']"

definition ACCESS_LEVEL_NOTE_PRED :: string where
  "ACCESS_LEVEL_NOTE_PRED = ''sagegov:accessLevelNote''"

definition SOURCE_NOTE :: string where
  "SOURCE_NOTE = ''reference/DataTypes-brief-Sept2025.xlsx''"

text \<open>
  \<open>profile.get(label, [])\<close> for a row label. The labels read this way are
  \<open>Data Type\<close>, \<open>Access Level\<close> and those of \<open>PROPERTY_ORDER\<close>, none of which is an
  internal key, so the value found is a list.
\<close>

definition get_list :: "profile \<Rightarrow> string \<Rightarrow> string list" where
  "get_list profile label = (case map_of profile label of Some (VList vs) \<Rightarrow> vs | _ \<Rightarrow> [])"

text \<open>\<open>bool(profile.get(key))\<close>: the truth value Python gives the entry.\<close>

definition flag_set :: "profile \<Rightarrow> string \<Rightarrow> bool" where
  "flag_set profile key =
     (case map_of profile key of
        None \<Rightarrow> False
      | Some (VList vs) \<Rightarrow> vs \<noteq> []
      | Some (VInt i) \<Rightarrow> i \<noteq> 0
      | Some (VBool b) \<Rightarrow> b)"

text \<open>The two shapes of a statement line: a vocabulary term, or a literal.\<close>

definition term_statement :: "string \<Rightarrow> string \<Rightarrow> string" where
  "term_statement predicate term = ''  '' @ predicate @ '' sagegov:'' @ term @ '' ;''"

definition literal_statement :: "string \<Rightarrow> string \<Rightarrow> string" where
  "literal_statement predicate v = ''  '' @ predicate @ '' '' @ literal v @ '' ;''"

text \<open>
  The first loop of the access-level branch: the index and the term of the first value
  that resolves. Every term of the tables is a non-empty string, so \<open>if term\<close> tests
  that the lookup found one.
\<close>

fun first_term :: "(string \<Rightarrow> string option) \<Rightarrow> nat \<Rightarrow> string list \<Rightarrow> (nat \<times> string) option" where
  "first_term resolve idx [] = None"
| "first_term resolve idx (v # vs) =
     (case resolve v of
        Some term \<Rightarrow> Some (idx, term)
      | None \<Rightarrow> first_term resolve (Suc idx) vs)"

definition access_level_lines :: "(string \<Rightarrow> string option) \<Rightarrow> string \<Rightarrow> string list \<Rightarrow> string list" where
  "access_level_lines resolve predicate values =
     (case first_term resolve 0 values of
        None \<Rightarrow> map (literal_statement predicate) values
      | Some (canonical_index, term) \<Rightarrow>
          term_statement predicate term #
          map (\<lambda>(idx, v). literal_statement ACCESS_LEVEL_NOTE_PRED v)
            (filter (\<lambda>(idx, v). idx \<noteq> canonical_index) (enumerate 0 values)))"

definition identifiability_lines :: "string \<Rightarrow> string \<Rightarrow> string list" where
  "identifiability_lines predicate v =
     (case identifiability_risk_term v of
        Some term \<Rightarrow> [term_statement predicate term]
      | None \<Rightarrow> [literal_statement predicate v])"

definition security_lines :: "string \<Rightarrow> string \<Rightarrow> string list" where
  "security_lines predicate v =
     (let terms = security_standard_terms v
      in if terms = [] then [literal_statement predicate v]
         else map (term_statement predicate) terms)"

definition approval_lines :: "string \<Rightarrow> string \<Rightarrow> string list" where
  "approval_lines predicate v =
     (let normalized = normalize_text v;
          lowered = py_lower normalized
      in if lowered = ''no'' then []
         else if sublist ''dac'' lowered
           then [term_statement predicate ''DataAccessCommittee'']
         else if sublist ''automated'' lowered \<and> sublist ''clickwrap'' lowered
           then [term_statement predicate ''AutomatedClickwrap'']
         else if sublist ''synapse'' lowered \<and> sublist ''account'' lowered
           then [term_statement predicate ''SynapseAccountCheck'']
         else [literal_statement predicate normalized])"

definition ALLOWS_EXCEPTION_LINE :: string where
  "ALLOWS_EXCEPTION_LINE = ''  sagegov:allowsException true ;''"

text \<open>The last branch of the loop: every field without a branch of its own.\<close>

definition generic_lines :: "string \<Rightarrow> string \<Rightarrow> string \<Rightarrow> string list" where
  "generic_lines label predicate v =
     (let exception_flag = endswith v EXCEPTION_MARKER
      in (''  '' @ predicate @ '' '' @ format_value label v @ '' ;'') #
         (if exception_flag then [ALLOWS_EXCEPTION_LINE] else []))"

definition property_lines :: "string \<Rightarrow> string \<Rightarrow> string list \<Rightarrow> string list" where
  "property_lines label predicate values =
     (if label = ''Access Level'' then access_level_lines access_level_term predicate values
      else if label = ''Identifiability risks''
        then concat (map (identifiability_lines predicate) values)
      else if label = ''Technical environment security standards''
        then concat (map (security_lines predicate) values)
      else if label = ''Approval Process''
        then concat (map (approval_lines predicate) values)
      else concat (map (generic_lines label predicate) values))"

text \<open>
  One iteration of the loop over \<open>PROPERTY_ORDER\<close>, on the lines written so far and the
  flag \<open>wrote_access_level\<close>.
\<close>

definition property_step :: "profile \<Rightarrow> string list \<times> bool \<Rightarrow> string \<times> string \<Rightarrow> string list \<times> bool" where
  "property_step profile st lp =
     (case st of (entry_lines, wrote_access_level) \<Rightarrow>
      case lp of (label, predicate) \<Rightarrow>
        (let values = get_list profile label
         in if values = [] then st
            else (entry_lines @ property_lines label predicate values,
                  wrote_access_level \<or> label = ''Access Level'')))"

text \<open>The names of a profile: its data types, else its first access level.\<close>

definition primary_names :: "profile \<Rightarrow> string list" where
  "primary_names profile =
     (let names = map normalize_label_text (get_list profile ''Data Type'')
      in if names = []
         then (case get_list profile ''Access Level'' of
                 [] \<Rightarrow> []
               | v # _ \<Rightarrow> [normalize_label_text v])
         else names)"

text \<open>\<open>is_data\<close> as the marker flags and the designated columns give it.\<close>

definition marker_is_data :: "profile \<Rightarrow> bool" where
  "marker_is_data profile =
     (let col_idx = map_of profile INTERNAL_COLUMN_KEY;
          is_data = (if DATA_TYPE_COLUMNS = [] then False
                     else (case col_idx of
                             Some (VInt i) \<Rightarrow> List.member DATA_TYPE_COLUMNS i
                           | _ \<Rightarrow> False));
          is_data = (is_data \<or> flag_set profile ROW4_DATA_KEY \<or> flag_set profile ROW5_DATA_KEY)
      in if flag_set profile ROW5_DATA_KEY then True else is_data)"

text \<open>
  The pair \<open>(is_data, access_profile_flag)\<close> of \<open>lift_gov_rules.py\<close> once the override
  list has been consulted.
\<close>

definition classification :: "profile \<Rightarrow> string \<Rightarrow> bool \<times> bool" where
  "classification profile pref_label =
     (let is_data = marker_is_data profile;
          access_profile_flag = (\<not> is_data);
          label_norm = py_lower (normalize_label_text pref_label)
      in if List.member ALSO_DATA_LABELS label_norm then (True, False)
         else (is_data, access_profile_flag))"

text \<open>
  The body of the loop over the profiles: no node for a profile without a name,
  else the lines of its node and the updated usage counter.
\<close>

definition profile_entry :: "profile \<Rightarrow> seen \<Rightarrow> (string list \<times> seen) option" where
  "profile_entry profile seen_ids =
     (case primary_names profile of
        [] \<Rightarrow> None
      | pref_label # more_names \<Rightarrow>
          (let alt_labels = filter (\<lambda>name. name \<noteq> pref_label) more_names in
           case camel_case_identifier pref_label seen_ids of (node_id, seen_ids') \<Rightarrow>
           case classification profile pref_label of (is_data, access_profile_flag) \<Rightarrow>
           (let classes = (if access_profile_flag then [''sagegov:AccessProfile''] else []);
                entry_lines =
                  [if classes = [] then ''sagegov:'' @ node_id
                   else ''sagegov:'' @ node_id @ '' rdf:type '' @ join '', '' classes @ '' ;'']
                  @ [''  skos:prefLabel '' @ literal pref_label @ '' ;'']
                  @ map (\<lambda>alt. ''  skos:altLabel '' @ literal alt @ '' ;'') alt_labels
                  @ (if is_data then [''  rdfs:subClassOf sagegov:Data ;''] else [])
            in case foldl (property_step profile) (entry_lines, False) PROPERTY_ORDER of
                 (entry_lines, wrote_access_level) \<Rightarrow>
                   Some (entry_lines
                         @ (if is_data \<and> \<not> wrote_access_level
                            then [''  sagegov:accessLevel sagegov:AnonymousOrOpen ;''] else [])
                         @ [''  dct:source '' @ literal SOURCE_NOTE @ '' .''],
                         seen_ids'))))"

text \<open>The loop over the profiles: the node blocks in order, each a list of lines.\<close>

fun node_blocks_from :: "(profile \<Rightarrow> seen \<Rightarrow> (string list \<times> seen) option) \<Rightarrow> profile list \<Rightarrow> seen \<Rightarrow> string list list" where
  "node_blocks_from entry [] seen_ids = []"
| "node_blocks_from entry (profile # profiles) seen_ids =
     (case entry profile seen_ids of
        None \<Rightarrow> node_blocks_from entry profiles seen_ids
      | Some (entry_lines, seen_ids') \<Rightarrow>
          entry_lines # node_blocks_from entry profiles seen_ids')"

definition node_blocks :: "profile list \<Rightarrow> string list list" where
  "node_blocks profiles = node_blocks_from profile_entry profiles Map.empty"


section \<open>The document of \<open>lift_gov_rules.py\<close>\<close>

definition PREFIX_BLOCK :: string where
  \<open>PREFIX_BLOCK = join [CHR 0x0A]
     [''@prefix rdf: <http://www.w3.org/1999/02/22-rdf-syntax-ns#> .'',
      ''@prefix rdfs: <http://www.w3.org/2000/01/rdf-schema#> .'',
      ''@prefix owl: <http://www.w3.org/2002/07/owl#> .'',
      ''@prefix skos: <http://www.w3.org/2004/02/skos/core#> .'',
      ''@prefix dct: <http://purl.org/dc/terms/> .'',
      ''@prefix sagegov: <https://synapse.org/synbiont/governance/> .'',
      '''']\<close>

definition CLASS_BLOCK :: string where
  \<open>CLASS_BLOCK = join [CHR 0x0A]
     ['''',
      ''sagegov:AccessProfile rdf:type owl:Class ;'',
      ''  rdfs:label "Sage governance access profile" ;'',
      ''  rdfs:comment "Profiles derived from the Sage governance reference spreadsheet." .'',
      '''',
      ''sagegov:Data rdf:type owl:Class ;'',
      ''  rdfs:label "Sage data type" ;'',
      ''  rdfs:comment "Data classifications referenced in governance policies." ;'',
      ''  rdfs:subClassOf <http://purl.obolibrary.org/obo/IAO_0000027> .'',
      '''',
      ''sagegov:AccessLevel rdf:type owl:Class ;'',
      ''  rdfs:label "Access level" ;'',
      ''  rdfs:comment "Permitted usage tiers for Synapse data." .'',
      '''',
      ''sagegov:SecurityStandard rdf:type owl:Class ;'',
      ''  rdfs:label "Security standard" ;'',
      ''  rdfs:comment "Required technical environment controls for handling data." .'',
      '''',
      ''sagegov:AccessProcess'',
      ''  rdfs:label "Access process" ;'',
      ''  rdfs:comment "Named procedures used to approve or deny data access." .'',
      '''',
      ''sagegov:DataAccessCommitteeApproval rdfs:subClassOf sagegov:AccessProcess ;'',
      ''  rdfs:label "Data Access Committee approval" ;'',
      ''  rdfs:comment "Approval performed manually by the Sage Data Access Committee." .'',
      '''',
      ''sagegov:SynapseAccountCheck rdfs:subClassOf sagegov:AccessProcess ;'',
      ''  rdfs:label "Synapse account check" ;'',
      ''  rdfs:comment "Approval step that only validates the requester has an active Synapse account." .'',
      '''',
      ''sagegov:AutomatedClickwrap rdfs:subClassOf sagegov:AccessProcess ;'',
      ''  rdfs:label "Automated clickwrap" ;'',
      ''  rdfs:comment "Automatic approval that relies on a click-through agreement." .'',
      '''',
      ''sagegov:IdentifiabilityRisk rdf:type owl:Class ;'',
      ''  rdfs:label "Identifiability risk" ;'',
      ''  rdfs:comment "Relative likelihood that data could be used to re-identify individuals." .'',
      '''',
      ''sagegov:AccessProfileRule rdf:type owl:Class ;'',
      ''  rdfs:label "Governance rule" ;'',
      ''  rdfs:comment "Helper class for constraints referenced inside the governance module." ;'',
      ''  rdfs:isDefinedBy sagegov:AccessProfile .'']\<close>

definition PROPERTY_DECLARATIONS :: vocabulary where
  "PROPERTY_DECLARATIONS =
     [(''sagegov:hasCapability'', ''has capability'',
         ''Generic capability fact derived from the governance reference table.''),
      (''sagegov:hasAccessPrerequisite'', ''has access prerequisite'',
         ''Prerequisite requirement that must be satisfied before access is granted.''),
      (''sagegov:allowsException'', ''allows exception'',
         ''Marks requirements that support limited contributor exceptions.''),
      (''sagegov:approvalProcess'', ''approval process'',
         ''Describes how data access requests are reviewed.''),
      (''sagegov:requireSynapseAccount'', ''require Synapse account'',
         ''Indicates whether requestors must hold an active Synapse account.''),
      (''sagegov:recommendedAccessLevel'', ''recommended access level'',
         ''Heuristic access tier recommended by governance reasoning.'')]"

definition SUBPROPERTY_MAP :: "(string \<times> string) list" where
  "SUBPROPERTY_MAP =
     [(''sagegov:humanSubjectsTraining'', ''sagegov:hasAccessPrerequisite''),
      (''sagegov:dataAccessRequest'', ''sagegov:hasAccessPrerequisite''),
      (''sagegov:dataUseCertificate'', ''sagegov:hasAccessPrerequisite''),
      (''sagegov:researchObjectiveRequirement'', ''sagegov:hasAccessPrerequisite''),
      (''sagegov:irbApproval'', ''sagegov:hasAccessPrerequisite''),
      (''sagegov:securityRequirements'', ''sagegov:hasAccessPrerequisite'')]"

definition MANUAL_SUBPROPERTY_ASSERTIONS :: "(string \<times> string) list" where
  "MANUAL_SUBPROPERTY_ASSERTIONS =
     [(''sagegov:requireSynapseAccount'', ''sagegov:hasAccessPrerequisite'')]"

text \<open>
  \<open>lines[-1] = lines[-1].rstrip(" ;") + " ."\<close>, on a list that always holds the lines
  written before it.
\<close>

definition close_block :: "string list \<Rightarrow> string list" where
  "close_block lines =
     (case rev lines of
        [] \<Rightarrow> []
      | l # earlier \<Rightarrow> rev earlier @ [rstrip_chars '' ;'' l @ '' .''])"

definition declaration_block :: "string list \<Rightarrow> string \<Rightarrow> string \<Rightarrow> string \<Rightarrow> string" where
  "declaration_block head label_pred label comment =
     join [CHR 0x0A]
       (close_block
          (head @ [''  '' @ label_pred @ '' '' @ literal label @ '' ;'']
           @ (if comment = [] then [] else [''  rdfs:comment '' @ literal comment @ '' ;''])))"

definition access_level_defs_block :: string where
  "access_level_defs_block =
     join [CHR 0x0A, CHR 0x0A]
       (map (\<lambda>(term, label, comment).
               declaration_block
                 [''sagegov:'' @ term, ''  rdfs:subClassOf sagegov:AccessLevel ;'']
                 ''skos:prefLabel'' label comment)
          ACCESS_LEVEL_DEFS)"

definition identifiability_risk_defs_block :: string where
  "identifiability_risk_defs_block =
     join [CHR 0x0A, CHR 0x0A]
       (map (\<lambda>(term, label, comment).
               declaration_block
                 [''sagegov:'' @ term, ''  rdfs:subClassOf sagegov:IdentifiabilityRisk ;'']
                 ''skos:prefLabel'' label comment)
          IDENTIFIABILITY_RISK_DEFS)"

definition security_standard_defs_block :: string where
  "security_standard_defs_block =
     join [CHR 0x0A, CHR 0x0A]
       (map (\<lambda>(term, label, comment).
               declaration_block
                 [''sagegov:'' @ term @ '' rdf:type sagegov:SecurityStandard ;'']
                 ''skos:prefLabel'' label comment)
          SECURITY_STANDARD_DEFS)"

text \<open>
  \<open>child.split(":", 1)[1]\<close> and the capitalised name built from it; every child of
  \<open>SUBPROPERTY_MAP\<close> has a colon followed by a name.
\<close>

definition local_name_of :: "string \<Rightarrow> string" where
  "local_name_of child = drop 1 (dropWhile (\<lambda>c. c \<noteq> CHR '':'') child)"

definition require_child_of :: "string \<Rightarrow> string" where
  "require_child_of child =
     (case local_name_of child of
        [] \<Rightarrow> ''sagegov:require''
      | c # cs \<Rightarrow> ''sagegov:require'' @ upper_char c # cs)"

definition property_axioms_block :: string where
  "property_axioms_block =
     join [CHR 0x0A, CHR 0x0A]
       (map (\<lambda>(iri, label, comment).
               declaration_block [iri @ '' rdf:type rdf:Property ;''] ''rdfs:label'' label comment)
          PROPERTY_DECLARATIONS
        @ map (\<lambda>(child, parent).
                 join [CHR 0x0A]
                   [require_child_of child @ '' rdf:type rdf:Property ;'',
                    ''  rdfs:subPropertyOf '' @ parent @ '' ;'',
                    ''  owl:equivalentProperty '' @ child @ '' .''])
            SUBPROPERTY_MAP
        @ map (\<lambda>(child, parent). child @ '' rdfs:subPropertyOf '' @ parent @ '' .'')
            MANUAL_SUBPROPERTY_ASSERTIONS)"

definition header_blocks :: "string list" where
  "header_blocks =
     [strip PREFIX_BLOCK, strip CLASS_BLOCK, strip access_level_defs_block,
      strip identifiability_risk_defs_block, strip security_standard_defs_block,
      strip property_axioms_block, []]"

definition build_turtle :: "profile list \<Rightarrow> string" where
  "build_turtle profiles =
     (let lines = filter (\<lambda>block. block \<noteq> []) header_blocks
                  @ map (join [CHR 0x0A]) (node_blocks profiles)
      in strip (join [CHR 0x0A, CHR 0x0A] lines) @ [CHR 0x0A])"

text \<open>
  The transformation inside \<open>main\<close>, from the grid read to the text written: the
  profiles are collected, a run without profiles ends in \<open>parser.error\<close>, any other
  builds the document.
\<close>

definition main_transform :: "grid \<Rightarrow> error + string" where
  "main_transform df =
     (case collect_profiles df of
        Inl e \<Rightarrow> Inl e
      | Inr profiles \<Rightarrow>
          if profiles = [] then Inl (ParserError ''No profiles found in the worksheet'')
          else Inr (build_turtle profiles))"

section \<open>The emitter of \<open>lift_datatype_rules.py\<close>\<close>

definition PROPERTY_ORDER_dt :: "(string \<times> string) list" where
  "PROPERTY_ORDER_dt =
     [(''Identifiability risks'', ''sagegov:identifiabilityRisk''),
      (''Access Level'', ''sagegov:accessLevel''),
      (''Description'', ''dct:description''),
      (''Capabilities'', ''sagegov:capabilities''),
      (''Examples'', ''sagegov:example''),
      (''Downloadable data'', ''sagegov:downloadable''),
      (''Redistribution'', ''sagegov:redistribution''),
      (''Affiliation Requirement'', ''sagegov:affiliationRequirement''),
      (''Synapse Account'', ''sagegov:synapseAccountRequirement''),
      (''Human Subjects Training'', ''sagegov:humanSubjectsTraining''),
      (''Data Access Request'', ''sagegov:dataAccessRequest''),
      (''Data Use Certificate Signed by Signing Official'', ''sagegov:dataUseCertificate''),
      (''General description of research objectives (posted)'', ''sagegov:researchObjectiveRequirement''),
      (''Proof of IRB approval'', ''sagegov:irbApproval''),
      (''Technical environment security standards'', ''sagegov:securityRequirements''),
      (''Approval Process'', ''sagegov:approvalProcess'')]"

definition property_lines_dt :: "string \<Rightarrow> string \<Rightarrow> string list \<Rightarrow> string list" where
  "property_lines_dt label predicate values =
     (if label = ''Access Level'' then access_level_lines access_level_term_dt predicate values
      else if label = ''Identifiability risks''
        then concat (map (identifiability_lines predicate) values)
      else map (\<lambda>v. ''  '' @ predicate @ '' '' @ format_value label v @ '' ;'') values)"

definition property_step_dt :: "profile \<Rightarrow> string list \<times> bool \<Rightarrow> string \<times> string \<Rightarrow> string list \<times> bool" where
  "property_step_dt profile st lp =
     (case st of (entry_lines, wrote_access_level) \<Rightarrow>
      case lp of (label, predicate) \<Rightarrow>
        (let values = get_list profile label
         in if values = [] then st
            else (entry_lines @ property_lines_dt label predicate values,
                  wrote_access_level \<or> label = ''Access Level'')))"

text \<open>The list \<open>classes\<close> of \<open>lift_datatype_rules.py\<close>.\<close>

definition classes_dt :: "profile \<Rightarrow> string \<Rightarrow> string list" where
  "classes_dt profile pref_label =
     (let classes = [''skos:Concept'']
                    @ (if marker_is_data profile then [''sagegov:Data'']
                       else [''sagegov:AccessProfile''])
      in if List.member ALSO_DATA_LABELS (py_lower (normalize_label_text pref_label))
         then (let classes = (if List.member classes ''sagegov:Data'' then classes
                              else classes @ [''sagegov:Data''])
               in if List.member classes ''sagegov:AccessProfile'' then classes
                  else classes @ [''sagegov:AccessProfile''])
         else classes)"

definition profile_entry_dt :: "profile \<Rightarrow> seen \<Rightarrow> (string list \<times> seen) option" where
  "profile_entry_dt profile seen_ids =
     (case primary_names profile of
        [] \<Rightarrow> None
      | pref_label # more_names \<Rightarrow>
          (let alt_labels = filter (\<lambda>name. name \<noteq> pref_label) more_names in
           case camel_case_identifier_dt pref_label seen_ids of (node_id, seen_ids') \<Rightarrow>
           (let is_data = marker_is_data profile;
                classes = classes_dt profile pref_label;
                entry_lines =
                  [''sagegov:'' @ node_id @ '' a '' @ join '', '' classes @ '' ;'',
                   ''  skos:prefLabel '' @ literal pref_label @ '' ;'']
                  @ map (\<lambda>alt. ''  skos:altLabel '' @ literal alt @ '' ;'') alt_labels
            in case foldl (property_step_dt profile) (entry_lines, False) PROPERTY_ORDER_dt of
                 (entry_lines, wrote_access_level) \<Rightarrow>
                   Some (entry_lines
                         @ (if is_data \<and> \<not> wrote_access_level
                            then [''  sagegov:accessLevel sagegov:AnonymousOrOpen ;''] else [])
                         @ [''  dct:source '' @ literal SOURCE_NOTE @ '' .''],
                         seen_ids'))))"

definition node_blocks_dt :: "profile list \<Rightarrow> string list list" where
  "node_blocks_dt profiles = node_blocks_from profile_entry_dt profiles Map.empty"

section \<open>Notions used to state the properties\<close>



text \<open>The node blocks of the document that a grid gives, none when no profile is collected.\<close>

definition nodes_of_grid :: "grid \<Rightarrow> string list list" where
  "nodes_of_grid df = (case collect_profiles df of Inl e \<Rightarrow> [] | Inr profiles \<Rightarrow> node_blocks profiles)"

definition nodes_of_grid_dt :: "grid \<Rightarrow> string list list" where
  "nodes_of_grid_dt df =
     (case collect_profiles df of Inl e \<Rightarrow> [] | Inr profiles \<Rightarrow> node_blocks_dt profiles)"

text \<open>
  The grid of the two-column scenario: a \<open>Data Type\<close> row and an \<open>Access Level\<close> row,
  column A holding \<open>Clinical\<close> and \<open>Open\<close>, column B \<open>Genomic\<close> and \<open>Controlled**\<close>.
\<close>

definition scenario_grid :: grid where
  "scenario_grid =
     [[Some ''Data Type'', Some ''Clinical'', Some ''Genomic''],
      [Some ''Access Level'', Some ''Open'', Some ''Controlled**'']]"

text \<open>
  A canonical access-level statement: a line that gives the predicate
  \<open>sagegov:accessLevel\<close> a term of the \<open>sagegov\<close> vocabulary.
\<close>

definition is_access_level_term_statement :: "string \<Rightarrow> bool" where
  "is_access_level_term_statement line = prefix ''  sagegov:accessLevel sagegov:'' line"

text \<open>
  The cells of a data column, each with the label of its row, and what it means that a
  cell contributes a value under a wanted label: its row has a label that is no section
  header, and the cell holds text that is neither empty nor a placeholder.
\<close>

definition column_cells :: "grid \<Rightarrow> nat \<Rightarrow> (cell \<times> cell) list" where
  "column_cells df col = zip (row_labels df) (column df col)"

definition contributes_under :: "(string \<Rightarrow> bool) \<Rightarrow> cell \<times> cell \<Rightarrow> bool" where
  "contributes_under wanted x =
     (case x of (label, raw_value) \<Rightarrow>
        (case label_key_of label of
           None \<Rightarrow> False
         | Some label_key \<Rightarrow>
             (case cell_value raw_value of
                None \<Rightarrow> False
              | Some value_text \<Rightarrow> wanted label_key)))"

text \<open>A column contributes when some cell of it contributes a value under any label.\<close>

definition column_contributes :: "grid \<Rightarrow> nat \<Rightarrow> bool" where
  "column_contributes df col = list_ex (contributes_under (\<lambda>k. True)) (column_cells df col)"

text \<open>A column has a name when some cell contributes a data type or an access level.\<close>

definition column_has_name :: "grid \<Rightarrow> nat \<Rightarrow> bool" where
  "column_has_name df col =
     list_ex (contributes_under (\<lambda>k. k = ''Data Type'' \<or> k = ''Access Level''))
       (column_cells df col)"

text \<open>The line that gives a node the primary label of its profile.\<close>

definition pref_label_line :: "profile \<Rightarrow> string" where
  "pref_label_line profile =
     ''  skos:prefLabel ''
     @ literal (case primary_names profile of [] \<Rightarrow> [] | pref_label # _ \<Rightarrow> pref_label)
     @ '' ;''"


text \<open>What one entry of the property order adds to the node.\<close>

definition contribution :: "(string \<Rightarrow> string \<Rightarrow> string list \<Rightarrow> string list) \<Rightarrow> profile \<Rightarrow> string \<times> string \<Rightarrow> string list" where
  "contribution pl profile lp =
     (case lp of (label, p) \<Rightarrow>
        if get_list profile label = [] then [] else pl label p (get_list profile label))"



text \<open>The values a bucket holds under a key, and those a list of cells adds under it.\<close>

definition bucket_values :: "(string \<times> string list) list \<Rightarrow> string \<Rightarrow> string list" where
  "bucket_values b k = (case map_of b k of None \<Rightarrow> [] | Some vs \<Rightarrow> vs)"

definition contributed :: "string \<Rightarrow> (nat \<times> cell \<times> cell) list \<Rightarrow> string list" where
  "contributed k xs =
     concat (map (\<lambda>(row_idx, label, raw_value).
                    case label_key_of label of
                      None \<Rightarrow> []
                    | Some label_key \<Rightarrow>
                        (case cell_value raw_value of
                           None \<Rightarrow> []
                         | Some value_text \<Rightarrow> if label_key = k then [value_text] else []))
               xs)"

section \<open>Properties of the identifier allocator\<close>

subsection \<open>The base is never empty\<close>

lemma alnum_parts_nonempty: "list_all (\<lambda>p. p \<noteq> []) (alnum_parts cur s)"
  by (induction s arbitrary: cur) simp_all

lemma chunk_nonempty: "p \<noteq> [] \<Longrightarrow> chunk p \<noteq> []"
  by (cases p) (simp_all add: chunk_def)

lemma base_of_parts_nonempty:
  assumes "list_all (\<lambda>p. p \<noteq> []) parts"
  shows "base_of_parts reserved parts \<noteq> []"
proof -
  define base0 where "base0 = (if parts = [] then ''Profile'' else concat (map chunk parts))"
  define base1 where "base1 = (if List.member reserved base0 then base0 @ ''Profile'' else base0)"
  have "base0 \<noteq> []"
    using assms by (cases parts) (simp_all add: base0_def chunk_nonempty)
  then have "base1 \<noteq> []" by (simp add: base1_def)
  then have "(case base1 of [] \<Rightarrow> base1
                | c # _ \<Rightarrow> if py_isdigit c then ''Profile'' @ base1 else base1) \<noteq> []"
    by (cases base1) simp_all
  moreover have "base_of_parts reserved parts
      = (case base1 of [] \<Rightarrow> base1
         | c # _ \<Rightarrow> if py_isdigit c then ''Profile'' @ base1 else base1)"
    unfolding base_of_parts_def Let_def base1_def base0_def by (rule refl)
  ultimately show ?thesis by simp
qed

lemma camel_base_nonempty: "camel_base v \<noteq> []" "camel_base_dt v \<noteq> []"
  by (simp_all add: camel_base_def camel_base_dt_def Let_def base_of_parts_nonempty
        alnum_parts_nonempty)

subsection \<open>Decimal numerals\<close>

lemma str_nat_small: "n < 10 \<Longrightarrow> str_nat n = [digit_chars ! n]"
  by (subst str_nat.simps) simp

lemma str_nat_big: "\<not> n < 10 \<Longrightarrow> str_nat n = str_nat (n div 10) @ [digit_chars ! (n mod 10)]"
  by (subst str_nat.simps) simp

lemma str_nat_nonempty: "str_nat n \<noteq> []"
  by (cases "n < 10") (simp_all add: str_nat_small str_nat_big)

lemma digit_chars_inj:
  assumes "a < 10" "b < 10" "digit_chars ! a = digit_chars ! b"
  shows "a = b"
proof -
  have d: "distinct digit_chars" by (simp add: digit_chars_def)
  have l: "length digit_chars = 10" by (simp add: digit_chars_def)
  from assms d l show ?thesis by (simp add: nth_eq_iff_index_eq)
qed

lemma str_nat_inj: "str_nat n = str_nat m \<Longrightarrow> n = m"
proof (induction n arbitrary: m rule: str_nat.induct)
  case (1 n)
  show ?case
  proof (cases "n < 10")
    case n_small: True
    show ?thesis
    proof (cases "m < 10")
      case True
      with n_small "1.prems" show ?thesis
        by (simp add: str_nat_small digit_chars_inj)
    next
      case False
      with n_small "1.prems" have "str_nat (m div 10) = []"
        by (simp add: str_nat_small str_nat_big)
      then show ?thesis by (simp add: str_nat_nonempty)
    qed
  next
    case n_big: False
    show ?thesis
    proof (cases "m < 10")
      case True
      with n_big "1.prems" have "str_nat (n div 10) = []"
        by (simp add: str_nat_small str_nat_big)
      then show ?thesis by (simp add: str_nat_nonempty)
    next
      case False
      with n_big "1.prems" have e: "str_nat (n div 10) = str_nat (m div 10)"
        and dm: "digit_chars ! (n mod 10) = digit_chars ! (m mod 10)"
        by (simp_all add: str_nat_big)
      from "1.IH"[OF n_big e] have q: "n div 10 = m div 10" .
      from dm have r: "n mod 10 = m mod 10" by (intro digit_chars_inj) simp_all
      from q r show ?thesis by (metis div_mult_mod_eq)
    qed
  qed
qed

lemma str_int_nonneg: "0 \<le> i \<Longrightarrow> str_int i = str_nat (nat i)"
  by (simp add: str_int_def)

lemma str_int_inj_nonneg: "0 \<le> i \<Longrightarrow> 0 \<le> j \<Longrightarrow> str_int i = str_int j \<Longrightarrow> i = j"
  using str_nat_inj[of "nat i" "nat j"] by (simp add: str_int_nonneg)

lemma str_int_nonempty: "str_int i \<noteq> []"
  by (simp add: str_int_def str_nat_nonempty)

subsection \<open>The usage counter\<close>

lemma successive_ids_used:
  assumes "list_all (\<lambda>v. base v = b) vs" "seen b = Some c" "1 \<le> c"
  shows "successive_ids (\<lambda>v s. allocate (base v) s) vs seen
         = map (\<lambda>j. b @ str_int (c + 1 + int j)) [0..<length vs]"
  using assms
proof (induction vs arbitrary: seen c)
  case Nil
  then show ?case by simp
next
  case (Cons v vs)
  from Cons.prems have bv: "base v = b" and rest: "list_all (\<lambda>v. base v = b) vs" by simp_all
  from Cons.prems have al: "allocate b seen = (b @ str_int (c + 1), seen(b \<mapsto> c + 1))"
    by (simp add: allocate_def)
  have ih: "successive_ids (\<lambda>v s. allocate (base v) s) vs (seen(b \<mapsto> c + 1))
        = map (\<lambda>j. b @ str_int (c + 1 + 1 + int j)) [0..<length vs]"
    using Cons.prems by (intro Cons.IH[OF rest]) simp_all
  have "[0..<length (v # vs)] = 0 # map Suc [0..<length vs]"
    by (simp add: upt_conv_Cons map_Suc_upt del: upt_Suc)
  then have shift: "map (\<lambda>j. b @ str_int (c + 1 + int j)) [0..<length (v # vs)]
       = (b @ str_int (c + 1)) # map (\<lambda>j. b @ str_int (c + 1 + 1 + int j)) [0..<length vs]"
    by (simp add: o_def add.commute add.left_commute)
  show ?case by (simp only: shift) (simp add: bv al ih)
qed


lemma successive_ids_fresh:
  assumes "vs \<noteq> []" "list_all (\<lambda>v. base v = b) vs"
  shows "successive_ids (\<lambda>v s. allocate (base v) s) vs Map.empty
         = b # map (\<lambda>j. b @ str_int (2 + int j)) [0..<length vs - 1]"
proof (cases vs)
  case Nil
  with assms show ?thesis by simp
next
  case (Cons v ws)
  with assms have bv: "base v = b" and rest: "list_all (\<lambda>v. base v = b) ws" by simp_all
  have al: "allocate b Map.empty = (b, [b \<mapsto> 1])" by (simp add: allocate_def)
  have "successive_ids (\<lambda>v s. allocate (base v) s) ws [b \<mapsto> 1]
        = map (\<lambda>j. b @ str_int (1 + 1 + int j)) [0..<length ws]"
    by (rule successive_ids_used[OF rest]) simp_all
  with Cons bv al show ?thesis by simp
qed

lemma suffixed_ids_props:
  fixes b :: string
  assumes "ids = b # map (\<lambda>j. b @ str_int (2 + int j)) [0..<n]"
  shows "length ids = Suc n" and "distinct ids" and "ids ! 0 = b"
    and "\<forall>k. 2 \<le> k \<and> k \<le> Suc n \<longrightarrow> ids ! (k - 1) = b @ str_int (int k)"
proof -
  show "length ids = Suc n" and "ids ! 0 = b" using assms by simp_all
  have inj: "inj_on (\<lambda>j. b @ str_int (2 + int j)) (set [0..<n])"
    by (rule inj_onI) (auto dest: str_int_inj_nonneg[rotated 2])
  have fresh: "b \<notin> set (map (\<lambda>j. b @ str_int (2 + int j)) [0..<n])"
    by (auto simp: str_int_nonempty)
  from inj fresh show "distinct ids" by (simp add: assms distinct_map)
  show "\<forall>k. 2 \<le> k \<and> k \<le> Suc n \<longrightarrow> ids ! (k - 1) = b @ str_int (int k)"
  proof (intro allI impI)
    fix k assume k: "2 \<le> k \<and> k \<le> Suc n"
    then obtain j where j: "k = Suc (Suc j)" "j < n"
      by (metis Suc_le_D Suc_le_mono less_eq_Suc_le numeral_2_eq_2)
    then have "ids ! (k - 1) = b @ str_int (2 + int j)" by (simp add: assms)
    also have "2 + int j = int k" using j by simp
    finally show "ids ! (k - 1) = b @ str_int (int k)" .
  qed
qed

text \<open>
  Claim C7. Take any non-empty sequence of labels that all give the same identifier base
  \<open>b\<close>, and call \<open>camel_case_identifier\<close> on them in turn, starting from an empty
  usage counter that the calls share. The identifiers returned are as many as the labels
  and pairwise distinct; the first is \<open>b\<close> itself, and the \<open>k\<close>-th, for \<open>k\<close> from two on,
  is \<open>b\<close> followed by the decimal numeral of \<open>k\<close>. This holds for the allocator of each of
  the two scripts.
\<close>

theorem camel_case_identifier_same_base:
  assumes "vs \<noteq> []"
  shows "(list_all (\<lambda>v. camel_base v = b) vs \<longrightarrow>
           (let ids = successive_ids camel_case_identifier vs Map.empty in
              length ids = length vs \<and> distinct ids \<and> ids ! 0 = b \<and>
              (\<forall>k. 2 \<le> k \<and> k \<le> length vs \<longrightarrow> ids ! (k - 1) = b @ str_int (int k))))
       \<and> (list_all (\<lambda>v. camel_base_dt v = b) vs \<longrightarrow>
           (let ids = successive_ids camel_case_identifier_dt vs Map.empty in
              length ids = length vs \<and> distinct ids \<and> ids ! 0 = b \<and>
              (\<forall>k. 2 \<le> k \<and> k \<le> length vs \<longrightarrow> ids ! (k - 1) = b @ str_int (int k))))"
proof -
  have gen: "length ids = length vs \<and> distinct ids \<and> ids ! 0 = b \<and>
              (\<forall>k. 2 \<le> k \<and> k \<le> length vs \<longrightarrow> ids ! (k - 1) = b @ str_int (int k))"
    if all: "list_all (\<lambda>v. base v = b) vs"
      and ids: "ids = successive_ids (\<lambda>v s. allocate (base v) s) vs Map.empty"
    for base ids
  proof -
    from successive_ids_fresh[OF assms all] ids
    have shape: "ids = b # map (\<lambda>j. b @ str_int (2 + int j)) [0..<length vs - 1]" by simp
    from assms have n: "Suc (length vs - 1) = length vs" by (cases vs) simp_all
    from suffixed_ids_props[OF shape] n show ?thesis by simp
  qed
  have gov: "camel_case_identifier = (\<lambda>v s. allocate (camel_base v) s)"
    by (intro ext) (simp add: camel_case_identifier_def)
  have dt: "camel_case_identifier_dt = (\<lambda>v s. allocate (camel_base_dt v) s)"
    by (intro ext) (simp add: camel_case_identifier_dt_def)
  show ?thesis
    unfolding Let_def gov dt using gen by blast
qed

theorem camel_case_identifier_same_base_witness:
  "[''Open data'', ''open data'', ''open-Data''] \<noteq> []
   \<and> list_all (\<lambda>v. camel_base v = ''OpenData'') [''Open data'', ''open data'', ''open-Data'']
   \<and> list_all (\<lambda>v. camel_base_dt v = ''OpenData'') [''Open data'', ''open data'', ''open-Data'']
   \<and> distinct (successive_ids camel_case_identifier [''Open data'', ''open data'', ''open-Data''] Map.empty)
   \<and> successive_ids camel_case_identifier [''Open data'', ''open data'', ''open-Data''] Map.empty ! 0
        = ''OpenData''
   \<and> successive_ids camel_case_identifier [''Open data'', ''open data'', ''open-Data''] Map.empty ! (3 - 1)
        = ''OpenData'' @ str_int (int 3)
   \<and> distinct (successive_ids camel_case_identifier_dt [''Open data'', ''open data'', ''open-Data''] Map.empty)"
proof -
  define vs where "vs = [''Open data'', ''open data'', ''open-Data'']"
  define X where "X = successive_ids camel_case_identifier vs Map.empty"
  define Y where "Y = successive_ids camel_case_identifier_dt vs Map.empty"
  have h1: "vs \<noteq> []" by (simp add: vs_def)
  have h2: "list_all (\<lambda>v. camel_base v = ''OpenData'') vs"
    unfolding vs_def by code_simp
  have h3: "list_all (\<lambda>v. camel_base_dt v = ''OpenData'') vs"
    unfolding vs_def by code_simp
  have len: "length vs = 3" by (simp add: vs_def)
  note main = camel_case_identifier_same_base[OF h1, of "''OpenData''", unfolded Let_def, folded X_def Y_def]
  from main h2 have gx: "distinct X" "X ! 0 = ''OpenData''"
      "\<forall>k. 2 \<le> k \<and> k \<le> length vs \<longrightarrow> X ! (k - 1) = ''OpenData'' @ str_int (int k)"
    by simp_all
  from main h3 have gy: "distinct Y"
    by simp
  from gx(3)[rule_format, of 3] len have k3: "X ! (3 - 1) = ''OpenData'' @ str_int (int 3)"
    by simp
  show ?thesis
    unfolding vs_def[symmetric] X_def[symmetric] Y_def[symmetric]
    using h1 h2 h3 gx(1,2) k3 gy by (intro conjI)
qed

text \<open>
  Claim C2 asks that the identifiers allocated in one run be pairwise distinct for every
  sequence of primary labels. The labels \<open>Tier\<close>, \<open>Tier\<close>, \<open>Tier 2\<close> show the allocator
  missing it: the second label is given the suffixed identifier \<open>Tier2\<close>, and the third
  label, whose own base \<open>Tier2\<close> has not been counted yet, is given \<open>Tier2\<close> again.
  A grid whose \<open>Data Type\<close> row holds these three labels gives a document in which
  two nodes open with the same identifier.
\<close>

theorem camel_case_identifier_collision:
  "successive_ids camel_case_identifier [''Tier'', ''Tier'', ''Tier 2''] Map.empty
     = [''Tier'', ''Tier2'', ''Tier2'']
   \<and> successive_ids camel_case_identifier_dt [''Tier'', ''Tier'', ''Tier 2''] Map.empty
     = [''Tier'', ''Tier2'', ''Tier2'']
   \<and> \<not> distinct (successive_ids camel_case_identifier [''Tier'', ''Tier'', ''Tier 2''] Map.empty)
   \<and> \<not> distinct (successive_ids camel_case_identifier_dt [''Tier'', ''Tier'', ''Tier 2''] Map.empty)
   \<and> map (\<lambda>lines. lines ! 0)
        (nodes_of_grid [[Some ''Data Type'', Some ''Tier'', Some ''Tier'', Some ''Tier 2'']])
      = [''sagegov:Tier'', ''sagegov:Tier2'', ''sagegov:Tier2'']
   \<and> map (\<lambda>lines. lines ! 0)
        (nodes_of_grid_dt [[Some ''Data Type'', Some ''Tier'', Some ''Tier'', Some ''Tier 2'']])
      = [''sagegov:Tier a skos:Concept, sagegov:Data ;'',
         ''sagegov:Tier2 a skos:Concept, sagegov:Data ;'',
         ''sagegov:Tier2 a skos:Concept, sagegov:Data ;'']"
  by code_simp

section \<open>Properties of the security-standard field\<close>

















section \<open>Properties of the exception marker\<close>

lemma boolean_field_generic:
  assumes "List.member BOOLEAN_FIELDS label"
  shows "property_lines label predicate values = concat (map (generic_lines label predicate) values)"
proof -
  from assms have "label \<noteq> ''Access Level''" "label \<noteq> ''Identifiability risks''"
    "label \<noteq> ''Technical environment security standards''" "label \<noteq> ''Approval Process''"
    by (auto simp: BOOLEAN_FIELDS_def)
  then show ?thesis by (simp add: property_lines_def)
qed

section \<open>Properties of the classification\<close>

lemma property_step_extends:
  "\<exists>more w'. property_step profile (ls, w) lp = (ls @ more, w')"
  by (cases lp) (simp add: property_step_def Let_def)

lemma foldl_property_step_extends:
  "\<exists>more w'. foldl (property_step profile) (ls, w) order = (ls @ more, w')"
proof (induction order arbitrary: ls w)
  case Nil
  then show ?case by simp
next
  case (Cons lp order)
  from property_step_extends[of profile ls w lp]
  obtain m1 w1 where s: "property_step profile (ls, w) lp = (ls @ m1, w1)" by blast
  from Cons.IH[of "ls @ m1" w1]
  obtain m2 w2 where "foldl (property_step profile) (ls @ m1, w1) order = ((ls @ m1) @ m2, w2)"
    by blast
  with s show ?case by simp
qed

lemma property_step_dt_extends:
  "\<exists>more w'. property_step_dt profile (ls, w) lp = (ls @ more, w')"
  by (cases lp) (simp add: property_step_dt_def Let_def)

lemma foldl_property_step_dt_extends:
  "\<exists>more w'. foldl (property_step_dt profile) (ls, w) order = (ls @ more, w')"
proof (induction order arbitrary: ls w)
  case Nil
  then show ?case by simp
next
  case (Cons lp order)
  from property_step_dt_extends[of profile ls w lp]
  obtain m1 w1 where s: "property_step_dt profile (ls, w) lp = (ls @ m1, w1)" by blast
  from Cons.IH[of "ls @ m1" w1]
  obtain m2 w2 where "foldl (property_step_dt profile) (ls @ m1, w1) order = ((ls @ m1) @ m2, w2)"
    by blast
  with s show ?case by simp
qed

lemma override_classification:
  "List.member ALSO_DATA_LABELS (py_lower (normalize_label_text pref_label)) \<Longrightarrow>
   classification profile pref_label = (True, False)"
  by (simp add: classification_def Let_def)

lemma override_classes_dt:
  "List.member ALSO_DATA_LABELS (py_lower (normalize_label_text pref_label)) \<Longrightarrow>
   classes_dt profile pref_label =
     (if marker_is_data profile then [''skos:Concept'', ''sagegov:Data'', ''sagegov:AccessProfile'']
      else [''skos:Concept'', ''sagegov:AccessProfile'', ''sagegov:Data''])"
  by (simp add: classes_dt_def Let_def)

lemma override_entry:
  assumes pn: "primary_names profile = pref_label # more_names"
    and ov: "List.member ALSO_DATA_LABELS (py_lower (normalize_label_text pref_label))"
  shows "\<exists>lines seen'. profile_entry profile seen = Some (lines, seen')
           \<and> lines ! 0 = ''sagegov:'' @ fst (camel_case_identifier pref_label seen)
           \<and> ''  rdfs:subClassOf sagegov:Data ;'' \<in> set lines"
proof -
  obtain node_id seen1 where cc: "camel_case_identifier pref_label seen = (node_id, seen1)"
    by (cases "camel_case_identifier pref_label seen")
  define start where "start =
     [''sagegov:'' @ node_id] @ [''  skos:prefLabel '' @ literal pref_label @ '' ;'']
     @ map (\<lambda>alt. ''  skos:altLabel '' @ literal alt @ '' ;'') (filter (\<lambda>name. name \<noteq> pref_label) more_names)
     @ [''  rdfs:subClassOf sagegov:Data ;'']"
  from foldl_property_step_extends[of profile start False PROPERTY_ORDER]
  obtain m w where f: "foldl (property_step profile) (start, False) PROPERTY_ORDER = (start @ m, w)"
    by blast
  have e: "profile_entry profile seen =
      Some (start @ m @ (if True \<and> \<not> w then [''  sagegov:accessLevel sagegov:AnonymousOrOpen ;''] else [])
            @ [''  dct:source '' @ literal SOURCE_NOTE @ '' .''], seen1)"
    using f by (simp add: profile_entry_def pn cc override_classification[OF ov] Let_def start_def)
  have h: "(start @ rest) ! 0 = ''sagegov:'' @ node_id" for rest
    by (simp add: start_def)
  have s: "''  rdfs:subClassOf sagegov:Data ;'' \<in> set (start @ rest)" for rest
    by (simp add: start_def)
  from e h s cc show ?thesis by simp
qed

lemma override_entry_dt:
  assumes pn: "primary_names profile = pref_label # more_names"
    and ov: "List.member ALSO_DATA_LABELS (py_lower (normalize_label_text pref_label))"
  shows "\<exists>lines seen'. profile_entry_dt profile seen = Some (lines, seen')
           \<and> lines ! 0 = ''sagegov:'' @ fst (camel_case_identifier_dt pref_label seen) @ '' a ''
                @ (if marker_is_data profile
                   then ''skos:Concept, sagegov:Data, sagegov:AccessProfile''
                   else ''skos:Concept, sagegov:AccessProfile, sagegov:Data'') @ '' ;''"
proof -
  obtain node_id seen1 where cc: "camel_case_identifier_dt pref_label seen = (node_id, seen1)"
    by (cases "camel_case_identifier_dt pref_label seen")
  define start where "start =
     [''sagegov:'' @ node_id @ '' a '' @ join '', '' (classes_dt profile pref_label) @ '' ;'',
      ''  skos:prefLabel '' @ literal pref_label @ '' ;'']
     @ map (\<lambda>alt. ''  skos:altLabel '' @ literal alt @ '' ;'') (filter (\<lambda>name. name \<noteq> pref_label) more_names)"
  from foldl_property_step_dt_extends[of profile start False PROPERTY_ORDER_dt]
  obtain m w where f: "foldl (property_step_dt profile) (start, False) PROPERTY_ORDER_dt = (start @ m, w)"
    by blast
  have e: "profile_entry_dt profile seen =
      Some (start @ m @ (if marker_is_data profile \<and> \<not> w then [''  sagegov:accessLevel sagegov:AnonymousOrOpen ;''] else [])
            @ [''  dct:source '' @ literal SOURCE_NOTE @ '' .''], seen1)"
    using f by (simp add: profile_entry_dt_def pn cc Let_def start_def)
  have h: "(start @ rest) ! 0 = ''sagegov:'' @ node_id @ '' a '' @ join '', '' (classes_dt profile pref_label) @ '' ;''" for rest
    by (simp add: start_def)
  have j: "join '', '' (classes_dt profile pref_label)
         = (if marker_is_data profile
                   then ''skos:Concept, sagegov:Data, sagegov:AccessProfile''
                   else ''skos:Concept, sagegov:AccessProfile, sagegov:Data'')"
    by (simp add: override_classes_dt[OF ov])
  from e h cc show ?thesis by (simp add: j)
qed


text \<open>
  Claim C3, as amended. Take any profile, whatever its marker flags, whose primary label,
  case and whitespace normalised, is in the override list. In \<open>lift_gov_rules.py\<close> its
  node is classified as Data only: the override sets \<open>is_data\<close> and clears
  \<open>access_profile_flag\<close>, so the node opens with its bare identifier, without
  \<open>rdf:type sagegov:AccessProfile\<close>, and carries \<open>rdfs:subClassOf sagegov:Data\<close>. In
  \<open>lift_datatype_rules.py\<close> its node is typed both \<open>sagegov:Data\<close> and
  \<open>sagegov:AccessProfile\<close>.
\<close>

theorem override_label_classification:
  assumes pn: "primary_names profile = pref_label # more_names"
    and ov: "List.member ALSO_DATA_LABELS (py_lower (normalize_label_text pref_label))"
  shows "classification profile pref_label = (True, False)
     \<and> (\<exists>lines seen'. profile_entry profile seen = Some (lines, seen')
           \<and> lines ! 0 = ''sagegov:'' @ fst (camel_case_identifier pref_label seen)
           \<and> ''  rdfs:subClassOf sagegov:Data ;'' \<in> set lines)
     \<and> (\<exists>lines seen'. profile_entry_dt profile seen = Some (lines, seen')
           \<and> lines ! 0 = ''sagegov:'' @ fst (camel_case_identifier_dt pref_label seen) @ '' a ''
                @ (if marker_is_data profile
                   then ''skos:Concept, sagegov:Data, sagegov:AccessProfile''
                   else ''skos:Concept, sagegov:AccessProfile, sagegov:Data'') @ '' ;'')"
  using override_classification[OF ov] override_entry[OF pn ov] override_entry_dt[OF pn ov]
  by (intro conjI)

theorem override_label_classification_witness:
  "primary_names [(''Access Level'', VList [''HIPAA Safe Harbor''])] = ''HIPAA Safe Harbor'' # []
   \<and> List.member ALSO_DATA_LABELS (py_lower (normalize_label_text ''HIPAA Safe Harbor''))
   \<and> classification [(''Access Level'', VList [''HIPAA Safe Harbor''])] ''HIPAA Safe Harbor''
       = (True, False)
   \<and> (\<exists>lines seen'. profile_entry_dt [(''Access Level'', VList [''HIPAA Safe Harbor''])] Map.empty
           = Some (lines, seen')
         \<and> lines ! 0 = ''sagegov:'' @ fst (camel_case_identifier_dt ''HIPAA Safe Harbor'' Map.empty) @ '' a ''
                @ (if marker_is_data [(''Access Level'', VList [''HIPAA Safe Harbor''])]
                   then ''skos:Concept, sagegov:Data, sagegov:AccessProfile''
                   else ''skos:Concept, sagegov:AccessProfile, sagegov:Data'') @ '' ;'')"
proof -
  define profile :: profile where "profile = [(''Access Level'', VList [''HIPAA Safe Harbor''])]"
  define l where "l = ''HIPAA Safe Harbor''"
  have h1: "primary_names profile = l # []" unfolding profile_def l_def by code_simp
  have h2: "List.member ALSO_DATA_LABELS (py_lower (normalize_label_text l))"
    unfolding l_def by code_simp
  note main = override_label_classification[OF h1 h2, of Map.empty]
  from main have a: "classification profile l = (True, False)" by (rule conjunct1)
  from main have b: "\<exists>lines seen'. profile_entry_dt profile Map.empty = Some (lines, seen')
         \<and> lines ! 0 = ''sagegov:'' @ fst (camel_case_identifier_dt l Map.empty) @ '' a ''
                @ (if marker_is_data profile
                   then ''skos:Concept, sagegov:Data, sagegov:AccessProfile''
                   else ''skos:Concept, sagegov:AccessProfile, sagegov:Data'') @ '' ;''"
    by (rule conjunct2[THEN conjunct2])
  from h1 h2 a b show ?thesis unfolding profile_def l_def by (intro conjI)
qed

text \<open>
  Claim C3 as stated fails in \<open>lift_gov_rules.py\<close>: a column whose only name is the
  access level \<open>HIPAA Safe Harbor\<close> gives a node that nowhere mentions
  \<open>AccessProfile\<close>.
\<close>

theorem override_label_not_access_profile:
  \<open>List.member ALSO_DATA_LABELS (py_lower (normalize_label_text ''HIPAA Safe Harbor''))
   \<and> nodes_of_grid [[Some ''Access Level'', Some ''HIPAA Safe Harbor'']] =
     [[''sagegov:HIPAASafeHarbor'',
       ''  skos:prefLabel "HIPAA Safe Harbor" ;'',
       ''  rdfs:subClassOf sagegov:Data ;'',
       ''  sagegov:accessLevel "HIPAA Safe Harbor" ;'',
       ''  dct:source "reference/DataTypes-brief-Sept2025.xlsx" .'']]
   \<and> \<not> list_ex (list_ex (sublist ''AccessProfile''))
         (nodes_of_grid [[Some ''Access Level'', Some ''HIPAA Safe Harbor'']])\<close>
  by code_simp

section \<open>The two-column scenario\<close>

text \<open>
  Claim C4, as amended. The two-column scenario grid gives exactly two nodes, both
  classified as Data by the \<open>Data Type\<close> marker row. \<open>Open\<close> is no label of the
  access-level vocabulary, so node A carries it as a literal access level. Node B
  carries the canonical \<open>Controlled\<close> term, the marker being removed when the value is
  resolved, and no other statement about its access level.
\<close>

theorem scenario_nodes:
  \<open>collect_profiles scenario_grid =
     Inr [[(''Data Type'', VList [''Clinical'']), (''Access Level'', VList [''Open'']),
           (''__column_index__'', VInt 1), (''__row4_data'', VBool True)],
          [(''Data Type'', VList [''Genomic'']), (''Access Level'', VList [''Controlled**'']),
           (''__column_index__'', VInt 2), (''__row4_data'', VBool True)]]
   \<and> access_level_term ''Open'' = None
   \<and> access_level_term ''Controlled**'' = Some ''Controlled''
   \<and> nodes_of_grid scenario_grid =
     [[''sagegov:Clinical'',
       ''  skos:prefLabel "Clinical" ;'',
       ''  rdfs:subClassOf sagegov:Data ;'',
       ''  sagegov:accessLevel "Open" ;'',
       ''  dct:source "reference/DataTypes-brief-Sept2025.xlsx" .''],
      [''sagegov:Genomic'',
       ''  skos:prefLabel "Genomic" ;'',
       ''  rdfs:subClassOf sagegov:Data ;'',
       ''  sagegov:accessLevel sagegov:Controlled ;'',
       ''  dct:source "reference/DataTypes-brief-Sept2025.xlsx" .'']]\<close>
  by code_simp

text \<open>
  Claim C4 as stated fails: node B has the canonical \<open>Controlled\<close> statement but no
  \<open>allowsException\<close> statement, since the access-level branch of the loop never looks
  at the exception marker.
\<close>

theorem scenario_no_exception_statement:
  \<open>length (nodes_of_grid scenario_grid) = 2
   \<and> ''  sagegov:accessLevel sagegov:Controlled ;'' \<in> set (nodes_of_grid scenario_grid ! 1)
   \<and> ''  sagegov:allowsException true ;'' \<notin> set (nodes_of_grid scenario_grid ! 1)
   \<and> \<not> list_ex (sublist ''allowsException'') (nodes_of_grid scenario_grid ! 1)\<close>
  by code_simp

section \<open>Properties of the access-level field\<close>












subsection \<open>The whole node block\<close>








lemma foldl_property_step:
  "foldl (property_step profile) (ls, w) order
   = (ls @ concat (map (contribution property_lines profile) order),
      w \<or> list_ex (\<lambda>(label, p). label = ''Access Level'' \<and> get_list profile label \<noteq> []) order)"
  by (induction order arbitrary: ls w)
     (auto simp: property_step_def contribution_def Let_def)










lemma wrote_access_level:
  assumes "get_list profile ''Access Level'' \<noteq> []"
  shows "list_ex (\<lambda>(label, p). label = ''Access Level'' \<and> get_list profile label \<noteq> []) PROPERTY_ORDER"
    and "list_ex (\<lambda>(label, p). label = ''Access Level'' \<and> get_list profile label \<noteq> []) PROPERTY_ORDER_dt"
  using assms by (simp_all add: PROPERTY_ORDER_def PROPERTY_ORDER_dt_def)




section \<open>Properties of the collector and of the node loop\<close>

subsection \<open>What a bucket holds\<close>

lemma bucket_values_setdefault_append:
  "bucket_values (setdefault_append k v b) k'
   = (if k' = k then bucket_values b k @ [v] else bucket_values b k')"
  by (simp add: setdefault_append_def update_conv' bucket_values_def)

lemma bucket_values_collect_cell:
  "bucket_values (bucket (collect_cell r4 r5 st x)) k
   = bucket_values (bucket st) k @ contributed k [x]"
  by (cases x)
     (auto simp: collect_cell_def contributed_def bucket_values_setdefault_append
           split: option.splits)

lemma contributed_Cons: "contributed k (x # xs) = contributed k [x] @ contributed k xs"
  by (simp add: contributed_def)

lemma bucket_values_collect:
  "bucket_values (bucket (foldl (collect_cell r4 r5) st xs)) k
   = bucket_values (bucket st) k @ contributed k xs"
proof (induction xs arbitrary: st)
  case Nil
  then show ?case by (simp add: contributed_def)
next
  case (Cons x xs)
  show ?case
    by (simp add: Cons.IH bucket_values_collect_cell contributed_Cons[of k x xs])
qed

lemma contributed_single:
  "(contributed k [(i, c)] \<noteq> []) = contributes_under (\<lambda>key. key = k) c"
  by (cases c) (simp add: contributed_def contributes_under_def split: option.splits)

lemma contributed_enumerate:
  "(contributed k (enumerate n cells) \<noteq> [])
   = list_ex (contributes_under (\<lambda>key. key = k)) cells"
proof (induction cells arbitrary: n)
  case Nil
  then show ?case by (simp add: contributed_def)
next
  case (Cons c cells)
  have "contributed k (enumerate n (c # cells))
        = contributed k [(n, c)] @ contributed k (enumerate (Suc n) cells)"
    using contributed_Cons[of k "(n, c)" "enumerate (Suc n) cells"] by simp
  then show ?case
    using contributed_single[of k n c] Cons.IH[of "Suc n"] by simp
qed

subsection \<open>Buckets hold no empty list\<close>

lemma update_entries:
  "set (AList.update k v al) \<subseteq> insert (k, v) (set al)"
  by (induction al) auto

lemma collect_cell_nonempty_lists:
  assumes "list_all (\<lambda>(k, vs). vs \<noteq> []) (bucket st)"
  shows "list_all (\<lambda>(k, vs). vs \<noteq> []) (bucket (collect_cell r4 r5 st x))"
proof (cases x)
  case (fields row_idx label raw_value)
  have "list_all (\<lambda>(k, vs). vs \<noteq> []) (setdefault_append k v (bucket st))" for k v
    using assms update_entries[of k "(case map_of (bucket st) k of None \<Rightarrow> [] | Some vs \<Rightarrow> vs) @ [v]" "bucket st"]
    unfolding setdefault_append_def list_all_iff by auto
  with assms fields show ?thesis
    by (simp add: collect_cell_def split: option.splits)
qed

lemma collect_nonempty_lists:
  "list_all (\<lambda>(k, vs). vs \<noteq> []) (bucket st) \<Longrightarrow>
   list_all (\<lambda>(k, vs). vs \<noteq> []) (bucket (foldl (collect_cell r4 r5) st xs))"
  by (induction xs arbitrary: st) (simp_all add: collect_cell_nonempty_lists)

lemma collect_cell_bucket_empty:
  "(bucket (collect_cell r4 r5 st (i, c)) = [])
   = (bucket st = [] \<and> \<not> contributes_under (\<lambda>k. True) c)"
  by (cases c)
     (simp add: collect_cell_def contributes_under_def setdefault_append_def split: option.splits)

lemma collect_bucket_empty:
  "(bucket (foldl (collect_cell r4 r5) st (enumerate n cells)) = [])
   = (bucket st = [] \<and> \<not> list_ex (contributes_under (\<lambda>k. True)) cells)"
proof (induction cells arbitrary: st n)
  case Nil
  then show ?case by simp
next
  case (Cons c cells)
  show ?case
    by (simp add: Cons.IH collect_cell_bucket_empty)
qed

lemma any_values_nonempty_lists:
  "list_all (\<lambda>(k, vs). vs \<noteq> []) b \<Longrightarrow> any_values b = (b \<noteq> [])"
  by (cases b) (auto simp: any_values_def)

lemma any_values_collect_column:
  "any_values (bucket (collect_column df col)) = column_contributes df col"
proof -
  have inv: "list_all (\<lambda>(k, vs). vs \<noteq> []) (bucket (collect_column df col))"
    unfolding collect_column_def Let_def
    by (rule collect_nonempty_lists) (simp add: empty_column_state_def)
  have "(bucket (collect_column df col) = []) = (\<not> column_contributes df col)"
    unfolding collect_column_def Let_def column_contributes_def column_cells_def
    by (simp add: collect_bucket_empty empty_column_state_def)
  with any_values_nonempty_lists[OF inv] show ?thesis by simp
qed


subsection \<open>The names of a collected profile\<close>

lemma get_list_profile_of:
  assumes "k \<noteq> INTERNAL_COLUMN_KEY" "k \<noteq> ROW5_DATA_KEY" "k \<noteq> ROW4_DATA_KEY"
  shows "get_list (profile_of col st) k = bucket_values (bucket st) k"
proof -
  have m: "map_of (map (\<lambda>(k, vs). (k, VList vs)) (bucket st)) k
           = map_option VList (map_of (bucket st) k)"
    by (simp add: map_of_map)
  from assms show ?thesis
    by (simp add: get_list_def profile_of_def Let_def update_conv' m bucket_values_def
          split: option.splits)
qed

lemma primary_names_empty:
  "(primary_names p = []) = (get_list p ''Data Type'' = [] \<and> get_list p ''Access Level'' = [])"
  by (simp add: primary_names_def Let_def split: list.splits)

lemma column_names:
  "(primary_names (profile_of col (collect_column df col)) \<noteq> []) = column_has_name df col"
proof -
  have k: "''Data Type'' \<noteq> INTERNAL_COLUMN_KEY" "''Data Type'' \<noteq> ROW5_DATA_KEY"
    "''Data Type'' \<noteq> ROW4_DATA_KEY" "''Access Level'' \<noteq> INTERNAL_COLUMN_KEY"
    "''Access Level'' \<noteq> ROW5_DATA_KEY" "''Access Level'' \<noteq> ROW4_DATA_KEY"
    by (simp_all add: INTERNAL_COLUMN_KEY_def ROW5_DATA_KEY_def ROW4_DATA_KEY_def)
  have v: "(bucket_values (bucket (collect_column df col)) key \<noteq> [])
           = list_ex (contributes_under (\<lambda>k. k = key)) (column_cells df col)" for key
  proof -
    have e: "bucket_values [] key = []" by (simp add: bucket_values_def)
    show ?thesis
      unfolding collect_column_def Let_def column_cells_def
      by (simp add: bucket_values_collect contributed_enumerate empty_column_state_def e)
  qed
  have split_wanted: "list_ex (contributes_under (\<lambda>k. k = a \<or> k = b)) cells
       = (list_ex (contributes_under (\<lambda>k. k = a)) cells
          \<or> list_ex (contributes_under (\<lambda>k. k = b)) cells)" for a b :: string and cells
    by (induction cells) (auto simp: contributes_under_def split: option.splits)
  show ?thesis
    using v[of "''Data Type''"] v[of "''Access Level''"]
    by (simp only: primary_names_empty get_list_profile_of k column_has_name_def split_wanted
          simp_thms de_Morgan_conj)
qed

lemma contributes_under_any:
  "contributes_under wanted c \<Longrightarrow> contributes_under (\<lambda>k. True) c"
  by (cases c) (simp add: contributes_under_def split: option.splits)

lemma has_name_contributes: "column_has_name df col \<Longrightarrow> column_contributes df col"
  unfolding column_has_name_def column_contributes_def list_ex_iff
  using contributes_under_any by blast

subsection \<open>One node for each profile that has a name\<close>



lemma profile_entry_none: "(profile_entry p seen = None) = (primary_names p = [])"
  by (simp add: profile_entry_def Let_def split: list.splits prod.splits)

lemma profile_entry_second_line:
  assumes "profile_entry p seen = Some (lines, seen')"
  shows "lines ! 1 = pref_label_line p"
proof -
  from assms obtain pref more_names where pn: "primary_names p = pref # more_names"
    by (cases "primary_names p") (simp_all add: profile_entry_def)
  obtain node_id s1 where cc: "camel_case_identifier pref seen = (node_id, s1)"
    by (cases "camel_case_identifier pref seen")
  obtain d a where cl: "classification p pref = (d, a)"
    by (cases "classification p pref")
  from assms show ?thesis
    by (auto simp add: profile_entry_def pn cc cl Let_def foldl_property_step
          pref_label_line_def)
qed

lemma node_blocks_from_names:
  "length (node_blocks_from profile_entry ps seen) = length (filter (\<lambda>p. primary_names p \<noteq> []) ps)
   \<and> map (\<lambda>lines. lines ! 1) (node_blocks_from profile_entry ps seen)
       = map pref_label_line (filter (\<lambda>p. primary_names p \<noteq> []) ps)"
proof (induction ps arbitrary: seen)
  case Nil
  then show ?case by simp
next
  case (Cons p ps)
  show ?case
  proof (cases "profile_entry p seen")
    case None
    with profile_entry_none[of p seen] Cons.IH[of seen] show ?thesis by simp
  next
    case (Some r)
    obtain lines seen' where r: "r = (lines, seen')" by (cases r)
    from Some profile_entry_none[of p seen] have n: "primary_names p \<noteq> []" by simp
    from Some r profile_entry_second_line[of p seen lines seen']
    have l: "lines ! 1 = pref_label_line p" by simp
    from Some r n l Cons.IH[of seen'] show ?thesis by simp
  qed
qed


subsection \<open>From the columns of the grid to the nodes\<close>

lemma column_profile_cases:
  "column_profile df col
   = (if column_contributes df col then [profile_of col (collect_column df col)] else [])"
  by (simp add: column_profile_def Let_def any_values_collect_column)

lemma profiles_of_columns:
  "length (concat (map (column_profile df) cols)) = length (filter (column_contributes df) cols)
   \<and> length (filter (\<lambda>p. primary_names p \<noteq> []) (concat (map (column_profile df) cols)))
       = length (filter (column_has_name df) cols)"
proof (induction cols)
  case Nil
  then show ?case by simp
next
  case (Cons c cols)
  show ?case
  proof (cases "column_contributes df c")
    case True
    with Cons.IH column_names[of c df] show ?thesis
      by (simp add: column_profile_cases)
  next
    case False
    with has_name_contributes[of df c] have "\<not> column_has_name df c" by blast
    with False Cons.IH show ?thesis by (simp add: column_profile_cases)
  qed
qed

text \<open>
  Claim C1, as amended. The collector returns one profile for each data column (index
  one and up) in which some cell contributes a value, in column order. The emitter
  writes exactly one node for each profile that has a name, that is, for each column in
  which some cell contributes a \<open>Data Type\<close> or an \<open>Access Level\<close> value, and no node
  for any other column: neither for a column that contributes nothing, nor for one
  whose bucket lacks both labels. The nodes follow the order of their profiles, the
  second line of each giving the primary label of its profile.
\<close>

theorem one_node_per_named_column:
  "length (nodes_of_grid df) = length (filter (column_has_name df) [1..<shape1 df])
   \<and> (collect_profiles df = Inr profiles \<longrightarrow>
        length profiles = length (filter (column_contributes df) [1..<shape1 df])
        \<and> length (node_blocks profiles) = length (filter (\<lambda>p. primary_names p \<noteq> []) profiles)
        \<and> map (\<lambda>lines. lines ! 1) (node_blocks profiles)
            = map pref_label_line (filter (\<lambda>p. primary_names p \<noteq> []) profiles))"
proof (intro conjI impI)
  show "length (nodes_of_grid df) = length (filter (column_has_name df) [1..<shape1 df])"
  proof (cases "shape1 df = 0")
    case True
    then show ?thesis by (simp add: nodes_of_grid_def collect_profiles_def)
  next
    case False
    then show ?thesis
      using node_blocks_from_names[of "concat (map (column_profile df) [1..<shape1 df])" Map.empty]
        profiles_of_columns[of df "[1..<shape1 df]"]
      by (simp add: nodes_of_grid_def collect_profiles_def node_blocks_def)
  qed
  assume c: "collect_profiles df = Inr profiles"
  then have ps: "profiles = concat (map (column_profile df) [1..<shape1 df])"
    by (simp add: collect_profiles_def split: if_splits)
  show "length profiles = length (filter (column_contributes df) [1..<shape1 df])"
    using profiles_of_columns[of df "[1..<shape1 df]"] by (simp add: ps)
  show "length (node_blocks profiles) = length (filter (\<lambda>p. primary_names p \<noteq> []) profiles)"
    using node_blocks_from_names[of profiles Map.empty] by (simp add: node_blocks_def)
  show "map (\<lambda>lines. lines ! 1) (node_blocks profiles)
            = map pref_label_line (filter (\<lambda>p. primary_names p \<noteq> []) profiles)"
    using node_blocks_from_names[of profiles Map.empty] by (simp add: node_blocks_def)
qed

theorem one_node_per_named_column_witness:
  \<open>collect_profiles [[Some ''Data Type'', Some ''Clinical'', None, None],
                     [Some ''Description'', None, Some ''Notes'', None]]
     = Inr [[(''Data Type'', VList [''Clinical'']), (''__column_index__'', VInt 1),
             (''__row4_data'', VBool True)],
            [(''Description'', VList [''Notes'']), (''__column_index__'', VInt 2)]]
   \<and> length [[(''Data Type'', VList [''Clinical'']), (''__column_index__'', VInt 1),
               (''__row4_data'', VBool True)],
              [(''Description'', VList [''Notes'']), (''__column_index__'', VInt 2)]]
       = length (filter (column_contributes [[Some ''Data Type'', Some ''Clinical'', None, None],
                     [Some ''Description'', None, Some ''Notes'', None]])
                   [1..<shape1 [[Some ''Data Type'', Some ''Clinical'', None, None],
                     [Some ''Description'', None, Some ''Notes'', None]]])
   \<and> length (nodes_of_grid [[Some ''Data Type'', Some ''Clinical'', None, None],
                     [Some ''Description'', None, Some ''Notes'', None]])
       = length (filter (column_has_name [[Some ''Data Type'', Some ''Clinical'', None, None],
                     [Some ''Description'', None, Some ''Notes'', None]])
                   [1..<shape1 [[Some ''Data Type'', Some ''Clinical'', None, None],
                     [Some ''Description'', None, Some ''Notes'', None]]])
   \<and> filter (column_has_name [[Some ''Data Type'', Some ''Clinical'', None, None],
                     [Some ''Description'', None, Some ''Notes'', None]])
        [1..<shape1 [[Some ''Data Type'', Some ''Clinical'', None, None],
                     [Some ''Description'', None, Some ''Notes'', None]]] = [1]\<close>
proof -
  define df :: grid where "df = [[Some ''Data Type'', Some ''Clinical'', None, None],
                     [Some ''Description'', None, Some ''Notes'', None]]"
  define ps :: "profile list" where
    "ps = [[(''Data Type'', VList [''Clinical'']), (''__column_index__'', VInt 1),
             (''__row4_data'', VBool True)],
            [(''Description'', VList [''Notes'']), (''__column_index__'', VInt 2)]]"
  have c: "collect_profiles df = Inr ps" unfolding df_def ps_def by code_simp
  have f: "filter (column_has_name df) [1..<shape1 df] = [1]" unfolding df_def by code_simp
  note main = one_node_per_named_column[of df ps]
  from main have a: "length (nodes_of_grid df) = length (filter (column_has_name df) [1..<shape1 df])"
    by (rule conjunct1)
  from main c have b: "length ps = length (filter (column_contributes df) [1..<shape1 df])"
    by blast
  from c b a f show ?thesis unfolding df_def ps_def by (intro conjI)
qed

text \<open>
  Claim C1 as stated fails: a column that only holds a description gives a non-empty
  bucket and no node.
\<close>

theorem unnamed_bucket_gives_no_node:
  \<open>column_contributes [[Some ''Description'', Some ''Open data'']] 1
   \<and> collect_profiles [[Some ''Description'', Some ''Open data'']]
       = Inr [[(''Description'', VList [''Open data'']), (''__column_index__'', VInt 1)]]
   \<and> nodes_of_grid [[Some ''Description'', Some ''Open data'']] = []\<close>
  by code_simp

section \<open>Properties of the whole transformation\<close>

lemma main_transform_fails_iff:
  "(\<exists>e. main_transform df = Inl e) = (filter (column_contributes df) [1..<shape1 df] = [])"
proof (cases "shape1 df = 0")
  case True
  then show ?thesis by (simp add: main_transform_def collect_profiles_def)
next
  case False
  have "(concat (map (column_profile df) [1..<shape1 df]) = [])
        = (filter (column_contributes df) [1..<shape1 df] = [])"
    using profiles_of_columns[of df "[1..<shape1 df]"] by (metis length_0_conv)
  with False show ?thesis
    by (simp add: main_transform_def collect_profiles_def)
qed

lemma main_transform_completes:
  assumes "filter (column_contributes df) [1..<shape1 df] \<noteq> []"
  shows "\<exists>profiles. collect_profiles df = Inr profiles \<and> profiles \<noteq> []
           \<and> main_transform df = Inr (build_turtle profiles)"
proof -
  from assms have n: "shape1 df \<noteq> 0" by (cases "shape1 df = 0") simp_all
  have "(concat (map (column_profile df) [1..<shape1 df]) = [])
        = (filter (column_contributes df) [1..<shape1 df] = [])"
    using profiles_of_columns[of df "[1..<shape1 df]"] by (metis length_0_conv)
  with assms n show ?thesis
    by (simp add: main_transform_def collect_profiles_def)
qed

lemma skipped_cell: "cell_value raw_value = None \<Longrightarrow> collect_cell r4 r5 st (i, label, raw_value) = st"
  by (simp add: collect_cell_def split: option.splits)

lemma unresolved_access_level:
  "access_level_term v = None \<Longrightarrow>
   property_lines ''Access Level'' p [v] = [literal_statement p v]"
  by (simp add: property_lines_def access_level_lines_def)

lemma unresolved_identifiability:
  "identifiability_risk_term v = None \<Longrightarrow> identifiability_lines p v = [literal_statement p v]"
  by (simp add: identifiability_lines_def)

lemma unresolved_security:
  "security_standard_terms v = [] \<Longrightarrow> security_lines p v = [literal_statement p v]"
  by (simp add: security_lines_def)

lemma unparsed_boolean: "normalize_bool v = None \<Longrightarrow> format_value label v = literal v"
  by (simp add: format_value_def)

lemma approval_no: "py_lower (normalize_text v) = ''no'' \<Longrightarrow> approval_lines p v = []"
  by (simp add: approval_lines_def Let_def)

lemma approval_unmatched:
  "py_lower (normalize_text v) \<noteq> ''no''
   \<and> \<not> sublist ''dac'' (py_lower (normalize_text v))
   \<and> \<not> (sublist ''automated'' (py_lower (normalize_text v))
        \<and> sublist ''clickwrap'' (py_lower (normalize_text v)))
   \<and> \<not> (sublist ''synapse'' (py_lower (normalize_text v))
        \<and> sublist ''account'' (py_lower (normalize_text v)))
   \<Longrightarrow> approval_lines p v = [literal_statement p (normalize_text v)]"
  by (auto simp add: approval_lines_def Let_def)


text \<open>
  Claim C9. The transformation ends in an error exactly when no data column of the grid
  contributes a value, that is, when no profile is collected; for every other grid it
  returns the document built from the profiles. Inside a run nothing else fails: a cell
  without usable text, a placeholder among them, leaves the bucket as it was; a value
  that no vocabulary resolves, a boolean-field value that is no yes/no synonym and an
  approval text that no rule matches are written as literal statements; an approval
  text equal to \<open>no\<close> is skipped.
\<close>

theorem fatal_only_without_profiles:
  "((\<exists>e. main_transform df = Inl e) = (filter (column_contributes df) [1..<shape1 df] = []))
   \<and> (filter (column_contributes df) [1..<shape1 df] \<noteq> [] \<longrightarrow>
        (\<exists>profiles. collect_profiles df = Inr profiles \<and> profiles \<noteq> []
           \<and> main_transform df = Inr (build_turtle profiles)))
   \<and> (cell_value raw_value = None \<longrightarrow> collect_cell r4 r5 st (i, label, raw_value) = st)
   \<and> (access_level_term v = None \<longrightarrow>
        property_lines ''Access Level'' p [v] = [literal_statement p v])
   \<and> (identifiability_risk_term v = None \<longrightarrow>
        identifiability_lines p v = [literal_statement p v])
   \<and> (security_standard_terms v = [] \<longrightarrow> security_lines p v = [literal_statement p v])
   \<and> (normalize_bool v = None \<longrightarrow> format_value field v = literal v)
   \<and> (py_lower (normalize_text v) = ''no'' \<longrightarrow> approval_lines p v = [])
   \<and> (py_lower (normalize_text v) \<noteq> ''no''
        \<and> \<not> sublist ''dac'' (py_lower (normalize_text v))
        \<and> \<not> (sublist ''automated'' (py_lower (normalize_text v))
             \<and> sublist ''clickwrap'' (py_lower (normalize_text v)))
        \<and> \<not> (sublist ''synapse'' (py_lower (normalize_text v))
             \<and> sublist ''account'' (py_lower (normalize_text v)))
        \<longrightarrow> approval_lines p v = [literal_statement p (normalize_text v)])"
  using main_transform_fails_iff[of df] main_transform_completes[of df]
    skipped_cell[of raw_value r4 r5 st i label] unresolved_access_level[of v p]
    unresolved_identifiability[of v p] unresolved_security[of v p]
    unparsed_boolean[of v field] approval_no[of v p] approval_unmatched[of v p]
  by (intro conjI impI) assumption+


theorem fatal_only_without_profiles_witness:
  \<open>filter (column_contributes [[Some ''Data Type'', Some ''Clinical''],
                                [Some ''Downloadable data'', Some ''Maybe**'']])
      [1..<shape1 [[Some ''Data Type'', Some ''Clinical''],
                   [Some ''Downloadable data'', Some ''Maybe**'']]] \<noteq> []
   \<and> (\<exists>profiles. collect_profiles [[Some ''Data Type'', Some ''Clinical''],
                                   [Some ''Downloadable data'', Some ''Maybe**'']] = Inr profiles
         \<and> profiles \<noteq> []
         \<and> main_transform [[Some ''Data Type'', Some ''Clinical''],
                           [Some ''Downloadable data'', Some ''Maybe**'']]
             = Inr (build_turtle profiles))
   \<and> filter (column_contributes [[Some ''Data Type'', None]])
        [1..<shape1 [[Some ''Data Type'', None]]] = []
   \<and> (\<exists>e. main_transform [[Some ''Data Type'', None]] = Inl e)
   \<and> cell_value (Some ''** With some exceptions at data contributor's discretion'') = None
   \<and> collect_cell None None empty_column_state
        (0, Some ''Description'', Some ''** With some exceptions at data contributor's discretion'')
       = empty_column_state
   \<and> access_level_term ''Maybe**'' = None
   \<and> property_lines ''Access Level'' ''sagegov:accessLevel'' [''Maybe**'']
       = [literal_statement ''sagegov:accessLevel'' ''Maybe**'']
   \<and> identifiability_risk_term ''Maybe**'' = None
   \<and> identifiability_lines ''sagegov:accessLevel'' ''Maybe**''
       = [literal_statement ''sagegov:accessLevel'' ''Maybe**'']
   \<and> security_standard_terms ''Maybe**'' = []
   \<and> security_lines ''sagegov:accessLevel'' ''Maybe**''
       = [literal_statement ''sagegov:accessLevel'' ''Maybe**'']
   \<and> normalize_bool ''Maybe**'' = None
   \<and> format_value ''Downloadable data'' ''Maybe**'' = literal ''Maybe**''
   \<and> approval_lines ''sagegov:accessLevel'' ''Maybe**''
       = [literal_statement ''sagegov:accessLevel'' (normalize_text ''Maybe**'')]
   \<and> py_lower (normalize_text ''No'') = ''no''
   \<and> approval_lines ''sagegov:approvalProcess'' ''No'' = []\<close>
proof -
  define df :: grid where "df = [[Some ''Data Type'', Some ''Clinical''],
                                [Some ''Downloadable data'', Some ''Maybe**'']]"
  define df0 :: grid where "df0 = [[Some ''Data Type'', None]]"
  define raw :: cell where
    \<open>raw = Some ''** With some exceptions at data contributor's discretion''\<close>
  define v where "v = ''Maybe**''"
  define p where "p = ''sagegov:accessLevel''"
  define no where "no = ''No''"
  define q where "q = ''sagegov:approvalProcess''"
  define field where "field = ''Downloadable data''"
  have h1: "filter (column_contributes df) [1..<shape1 df] \<noteq> []" unfolding df_def by code_simp
  have h0: "filter (column_contributes df0) [1..<shape1 df0] = []" unfolding df0_def by code_simp
  have h2: "cell_value raw = None" unfolding raw_def by code_simp
  have h3: "access_level_term v = None" unfolding v_def by code_simp
  have h4: "identifiability_risk_term v = None" unfolding v_def by code_simp
  have h5: "security_standard_terms v = []" unfolding v_def by code_simp
  have h6: "normalize_bool v = None" unfolding v_def by code_simp
  have h7: "py_lower (normalize_text v) \<noteq> ''no''
        \<and> \<not> sublist ''dac'' (py_lower (normalize_text v))
        \<and> \<not> (sublist ''automated'' (py_lower (normalize_text v))
             \<and> sublist ''clickwrap'' (py_lower (normalize_text v)))
        \<and> \<not> (sublist ''synapse'' (py_lower (normalize_text v))
             \<and> sublist ''account'' (py_lower (normalize_text v)))"
    unfolding v_def by code_simp
  have h8: "py_lower (normalize_text no) = ''no''" unfolding no_def by code_simp
  note m1 = fatal_only_without_profiles[of df raw None None empty_column_state 0
      "Some ''Description''" v p field]
  note m0 = fatal_only_without_profiles[of df0 raw None None empty_column_state 0
      "Some ''Description''" no q field]
  from m1 h1 have c1: "\<exists>profiles. collect_profiles df = Inr profiles \<and> profiles \<noteq> []
           \<and> main_transform df = Inr (build_turtle profiles)" by blast
  from m0 h0 have c0: "\<exists>e. main_transform df0 = Inl e" by blast
  from m1 h2 have c2: "collect_cell None None empty_column_state (0, Some ''Description'', raw)
       = empty_column_state" by blast
  from m1 h3 have c3: "property_lines ''Access Level'' p [v] = [literal_statement p v]" by blast
  from m1 h4 have c4: "identifiability_lines p v = [literal_statement p v]" by blast
  from m1 h5 have c5: "security_lines p v = [literal_statement p v]" by blast
  from m1 h6 have c6: "format_value field v = literal v" by blast
  from m1 h7 have c7: "approval_lines p v = [literal_statement p (normalize_text v)]" by blast
  from m0 h8 have c8: "approval_lines q no = []" by blast
  from h1 c1 h0 c0 h2 c2 h3 c3 h4 c4 h5 c5 h6 c6 c7 h8 c8 show ?thesis
    unfolding df_def df0_def raw_def v_def p_def no_def q_def field_def by (intro conjI)
qed

section \<open>Statements in the node of a profile\<close>

subsection \<open>The lines of a field inside the node\<close>

lemma sublist_concat_map: "x \<in> set xs \<Longrightarrow> sublist (f x) (concat (map f xs))"
proof -
  assume "x \<in> set xs"
  then obtain ys zs where "xs = ys @ x # zs" by (auto simp: in_set_conv_decomp)
  then have "concat (map f xs) = concat (map f ys) @ f x @ concat (map f zs)" by simp
  then show ?thesis unfolding sublist_def by blast
qed

lemma sublist_inside: "sublist xs ys \<Longrightarrow> sublist xs (pre @ ys @ post)"
  unfolding sublist_def by (metis append.assoc)

lemma entry_lines_decomposed:
  assumes "profile_entry p seen = Some (lines, seen')"
  shows "\<exists>pre post. lines = pre @ concat (map (contribution property_lines p) PROPERTY_ORDER) @ post
           \<and> filter is_access_level_term_statement pre = []
           \<and> (get_list p ''Access Level'' \<noteq> [] \<longrightarrow>
                filter is_access_level_term_statement post = [])"
proof -
  from assms obtain pref more_names where pn: "primary_names p = pref # more_names"
    by (cases "primary_names p") (simp_all add: profile_entry_def)
  obtain node_id s1 where cc: "camel_case_identifier pref seen = (node_id, s1)"
    by (cases "camel_case_identifier pref seen")
  obtain d a where cl: "classification p pref = (d, a)"
    by (cases "classification p pref")
  define start where "start =
     [if (if a then [''sagegov:AccessProfile''] else []) = [] then ''sagegov:'' @ node_id
      else ''sagegov:'' @ node_id @ '' rdf:type ''
           @ join '', '' (if a then [''sagegov:AccessProfile''] else []) @ '' ;'']
     @ [''  skos:prefLabel '' @ literal pref @ '' ;'']
     @ map (\<lambda>alt. ''  skos:altLabel '' @ literal alt @ '' ;'')
         (filter (\<lambda>name. name \<noteq> pref) more_names)
     @ (if d then [''  rdfs:subClassOf sagegov:Data ;''] else [])"
  define post where "post =
     (if d \<and> \<not> list_ex (\<lambda>(label, pa). label = ''Access Level'' \<and> get_list p label \<noteq> [])
                   PROPERTY_ORDER
      then [''  sagegov:accessLevel sagegov:AnonymousOrOpen ;''] else [])
     @ [''  dct:source '' @ literal SOURCE_NOTE @ '' .'']"
  have l: "lines = start @ concat (map (contribution property_lines p) PROPERTY_ORDER) @ post"
    unfolding start_def post_def using assms
    by (simp add: profile_entry_def pn cc cl Let_def foldl_property_step)
  have st: "filter is_access_level_term_statement start = []"
    by (simp add: start_def is_access_level_term_statement_def filter_empty_conv)
  have ps: "filter is_access_level_term_statement post = []"
    if "get_list p ''Access Level'' \<noteq> []"
    using wrote_access_level[OF that]
    by (simp add: post_def is_access_level_term_statement_def)
  from l st ps show ?thesis by blast
qed


lemma contribution_present:
  "get_list p label \<noteq> [] \<Longrightarrow> contribution pl p (label, pred) = pl label pred (get_list p label)"
  by (simp add: contribution_def)

lemma entry_contains_property:
  assumes en: "profile_entry p seen = Some (lines, seen')"
    and lp: "(label, pred) \<in> set PROPERTY_ORDER"
    and ne: "get_list p label \<noteq> []"
  shows "sublist (property_lines label pred (get_list p label)) lines"
proof -
  from entry_lines_decomposed[OF en] obtain pre post
    where l: "lines = pre @ concat (map (contribution property_lines p) PROPERTY_ORDER) @ post"
    by blast
  from sublist_concat_map[OF lp, of "contribution property_lines p"]
  have "sublist (property_lines label pred (get_list p label))
          (concat (map (contribution property_lines p) PROPERTY_ORDER))"
    by (simp only: contribution_present[OF ne])
  then show ?thesis unfolding l by (rule sublist_inside)
qed





subsection \<open>No canonical statement when no access level resolves\<close>







lemma sublist_chain: "sublist xs ys \<Longrightarrow> sublist ys zs \<Longrightarrow> sublist xs zs"
  by (rule sublist_order.order_trans)

lemma named_gives_entry:
  "primary_names p \<noteq> [] \<Longrightarrow> \<exists>lines seen'. profile_entry p seen = Some (lines, seen')"
  using profile_entry_none[of p seen] by (cases "profile_entry p seen") auto

lemma entry_contains_value_lines:
  assumes en: "profile_entry p seen = Some (lines, seen')"
    and lp: "(label, pred) \<in> set PROPERTY_ORDER"
    and v: "v \<in> set (get_list p label)"
    and pl: "property_lines label pred (get_list p label) = concat (map f (get_list p label))"
  shows "sublist (f v) lines"
proof -
  from v have ne: "get_list p label \<noteq> []" by auto
  from entry_contains_property[OF en lp ne]
  have "sublist (concat (map f (get_list p label))) lines" by (simp only: pl)
  with sublist_concat_map[OF v, of f] show ?thesis by (rule sublist_chain)
qed







text \<open>
  Claim C8, as amended. Take any profile for which the emitter writes a node, any
  boolean field of the property order, and any value of that field that ends in the
  exception marker. The node holds two statements for the value, one after the other:
  first the boolean statement when the value, its trailing stars removed, is a yes/no
  synonym, else the literal of the whole value, marker kept; then the statement
  \<open>sagegov:allowsException true\<close>. For \<open>Yes**\<close> these are \<open>true\<close> and the exception
  statement.
\<close>

theorem exception_marker_on_boolean_field:
  assumes "profile_entry profile seen = Some (lines, seen')"
    and "(label, predicate) \<in> set PROPERTY_ORDER"
    and "List.member BOOLEAN_FIELDS label"
    and "v \<in> set (get_list profile label)"
    and "endswith v EXCEPTION_MARKER"
  shows \<open>sublist
           [(case normalize_bool v of
               Some b \<Rightarrow> ''  '' @ predicate @ '' '' @ (if b then ''true'' else ''false'') @ '' ;''
             | None \<Rightarrow> literal_statement predicate v),
            ''  sagegov:allowsException true ;''] lines
     \<and> normalize_bool ''Yes**'' = Some True
     \<and> nodes_of_grid [[Some ''Data Type'', Some ''Genomic''],
                       [Some ''Downloadable data'', Some ''Yes**'']]
         = [[''sagegov:Genomic'',
             ''  skos:prefLabel "Genomic" ;'',
             ''  rdfs:subClassOf sagegov:Data ;'',
             ''  sagegov:downloadable true ;'',
             ''  sagegov:allowsException true ;'',
             ''  sagegov:accessLevel sagegov:AnonymousOrOpen ;'',
             ''  dct:source "reference/DataTypes-brief-Sept2025.xlsx" .'']]\<close>
proof (intro conjI)
  have g: "generic_lines label predicate v =
          [(case normalize_bool v of
              Some b \<Rightarrow> ''  '' @ predicate @ '' '' @ (if b then ''true'' else ''false'') @ '' ;''
            | None \<Rightarrow> literal_statement predicate v),
           ''  sagegov:allowsException true ;'']"
    using assms(3,5)
    by (simp add: generic_lines_def format_value_def literal_statement_def
          ALLOWS_EXCEPTION_LINE_def split: option.split)
  have "sublist (generic_lines label predicate v) lines"
    using assms(1,2,4) boolean_field_generic[OF assms(3)]
    by (rule entry_contains_value_lines)
  then show "sublist
           [(case normalize_bool v of
               Some b \<Rightarrow> ''  '' @ predicate @ '' '' @ (if b then ''true'' else ''false'') @ '' ;''
             | None \<Rightarrow> literal_statement predicate v),
            ''  sagegov:allowsException true ;''] lines"
    by (simp only: g)
  show "normalize_bool ''Yes**'' = Some True" by code_simp
  show \<open>nodes_of_grid [[Some ''Data Type'', Some ''Genomic''],
                       [Some ''Downloadable data'', Some ''Yes**'']]
         = [[''sagegov:Genomic'',
             ''  skos:prefLabel "Genomic" ;'',
             ''  rdfs:subClassOf sagegov:Data ;'',
             ''  sagegov:downloadable true ;'',
             ''  sagegov:allowsException true ;'',
             ''  sagegov:accessLevel sagegov:AnonymousOrOpen ;'',
             ''  dct:source "reference/DataTypes-brief-Sept2025.xlsx" .'']]\<close>
    by code_simp
qed

theorem exception_marker_on_boolean_field_witness:
  \<open>(''Redistribution'', ''sagegov:redistributable'') \<in> set PROPERTY_ORDER
   \<and> List.member BOOLEAN_FIELDS ''Redistribution''
   \<and> ''no**'' \<in> set (get_list [(''Data Type'', VList [''Genomic'']),
                                  (''Redistribution'', VList [''no**''])] ''Redistribution'')
   \<and> endswith ''no**'' EXCEPTION_MARKER
   \<and> (\<exists>lines seen'.
         profile_entry [(''Data Type'', VList [''Genomic'']),
                        (''Redistribution'', VList [''no**''])] Map.empty
           = Some (lines, seen')
         \<and> sublist [''  sagegov:redistributable false ;'', ''  sagegov:allowsException true ;'']
              lines)\<close>
proof -
  define label where "label = ''Redistribution''"
  define p where "p = ''sagegov:redistributable''"
  define v where "v = ''no**''"
  define profile :: profile where
    "profile = [(''Data Type'', VList [''Genomic'']), (label, VList [v])]"
  have h0: "(label, p) \<in> set PROPERTY_ORDER" by (simp add: label_def p_def PROPERTY_ORDER_def)
  have h1: "List.member BOOLEAN_FIELDS label" unfolding label_def by code_simp
  have h2: "v \<in> set (get_list profile label)" by (simp add: profile_def get_list_def label_def)
  have h3: "endswith v EXCEPTION_MARKER" unfolding v_def by code_simp
  have nb: "normalize_bool v = Some False" unfolding v_def by code_simp
  have "primary_names profile \<noteq> []"
    by (simp add: profile_def primary_names_def get_list_def label_def)
  from named_gives_entry[OF this, of Map.empty]
  obtain lines seen' where en: "profile_entry profile Map.empty = Some (lines, seen')" by blast
  from exception_marker_on_boolean_field[OF en h0 h1 h2 h3]
  have "sublist
           [(case normalize_bool v of
               Some b \<Rightarrow> ''  '' @ p @ '' '' @ (if b then ''true'' else ''false'') @ '' ;''
             | None \<Rightarrow> literal_statement p v),
            ''  sagegov:allowsException true ;''] lines"
    by (rule conjunct1)
  then have "sublist [''  sagegov:redistributable false ;'', ''  sagegov:allowsException true ;'']
              lines"
    by (simp add: nb p_def)
  with en have e: "\<exists>lines seen'. profile_entry profile Map.empty = Some (lines, seen')
         \<and> sublist [''  sagegov:redistributable false ;'', ''  sagegov:allowsException true ;'']
              lines"
    by blast
  from h0 h1 h2 h3 e show ?thesis unfolding profile_def label_def p_def v_def by (intro conjI)
qed

text \<open>
  Claim C8 as stated fails for a boolean-field value that is not a yes/no synonym: for
  \<open>Maybe**\<close> no boolean statement is written, and the literal that is written keeps
  the marker.
\<close>

theorem exception_marker_literal_keeps_marker:
  \<open>List.member BOOLEAN_FIELDS ''Downloadable data''
   \<and> endswith ''Maybe**'' EXCEPTION_MARKER
   \<and> normalize_bool ''Maybe**'' = None
   \<and> property_lines ''Downloadable data'' ''sagegov:downloadable'' [''Maybe**'']
       = [''  sagegov:downloadable "Maybe**" ;'', ''  sagegov:allowsException true ;'']
   \<and> ''  sagegov:downloadable true ;''
        \<notin> set (property_lines ''Downloadable data'' ''sagegov:downloadable'' [''Maybe**''])
   \<and> ''  sagegov:downloadable false ;''
        \<notin> set (property_lines ''Downloadable data'' ''sagegov:downloadable'' [''Maybe**''])
   \<and> ''  sagegov:downloadable "Maybe" ;''
        \<notin> set (property_lines ''Downloadable data'' ''sagegov:downloadable'' [''Maybe**''])
   \<and> nodes_of_grid [[Some ''Data Type'', Some ''Genomic''],
                     [Some ''Downloadable data'', Some ''Maybe**'']]
       = [[''sagegov:Genomic'',
           ''  skos:prefLabel "Genomic" ;'',
           ''  rdfs:subClassOf sagegov:Data ;'',
           ''  sagegov:downloadable "Maybe**" ;'',
           ''  sagegov:allowsException true ;'',
           ''  sagegov:accessLevel sagegov:AnonymousOrOpen ;'',
           ''  dct:source "reference/DataTypes-brief-Sept2025.xlsx" .'']]\<close>
  by code_simp

end
